theory Spec2Isabelle
  imports Complex_Main
begin

section \<open>Settings of the two simulators\<close>

text \<open>
  The repository holds two scripts that simulate the same slot loop:
  \<^verbatim>\<open>scripts/simulation.py\<close> (called variant A below) and
  \<^verbatim>\<open>tools/jam_datacenter_simulator.py\<close> (variant B).  Both read their parameters from
  module-level constants; here the constants are the fields of a record, and
  \<open>settings_A\<close> and \<open>settings_B\<close> hold the values written in the two files.

  The integers of the model are unbounded and its fractions exact, where the source
  computes in numpy's \<^verbatim>\<open>int64\<close> and in binary64 floats; \<^verbatim>\<open>nan\<close> (the mean of an
  empty series) is \<open>None\<close>.  The two agree on comparisons and on integer results as long
  as the settings are positive and every byte count of a slot stays below \<open>2 ^ 53\<close>:
  the predicates \<open>in_range_A\<close> and \<open>in_range_B\<close> below say so, and the theorems about
  byte counts, comparisons and throughput assume them.  A throughput of the model is the
  exact value of the expression that the source evaluates in floats.
\<close>

record settings =
  C :: nat
  P :: int
  T :: int
  core_bandwidth :: int
  work_package_size :: int
  witness_size :: int
  finality_delay_slots :: nat
  GAMMA_A :: rat
  GAMMA_Z :: rat

record dc_settings = settings +
  CHUNK_SIZE :: int

definition settings_A :: settings where
  "settings_A = \<lparr> C = 341, P = 6, T = 128, core_bandwidth = 2 * 1024 * 1024,
     work_package_size = 13794305, witness_size = 640, finality_delay_slots = 2,
     GAMMA_A = 1 / 1000, GAMMA_Z = 5 / 10000 \<rparr>"

definition settings_B :: dc_settings where
  "settings_B = \<lparr> C = 341, P = 6, T = 128, core_bandwidth = (3125 * 1024 * 1024) div 341,
     work_package_size = 13794305, witness_size = 640, finality_delay_slots = 2,
     GAMMA_A = 1 / 1000, GAMMA_Z = 5 / 10000, CHUNK_SIZE = 1 * 1024 * 1024 \<rparr>"

text \<open>
  Settings inside the range where the model and the source agree.  A slot of variant A
  has at most 6 workloads and 3000 witnesses, a slot of variant B at most 30 workloads;
  no core can demand more than the bound on the last line, so no \<^verbatim>\<open>int64\<close> product
  wraps and every byte count converts to a float exactly; with \<open>core_bandwidth * P\<close>
  below \<open>2 ^ 53\<close> the float test \<^verbatim>\<open>(wp + wit) / P > core_bandwidth\<close> of variant A
  decides as the integers do.
\<close>

definition in_range_A :: "settings \<Rightarrow> bool" where
  "in_range_A cfg \<longleftrightarrow>
     0 < C cfg \<and> 0 < P cfg \<and> 0 < T cfg \<and> 0 < core_bandwidth cfg \<and>
     0 < work_package_size cfg \<and> 0 < witness_size cfg \<and>
     T cfg < 2 ^ 53 \<and> core_bandwidth cfg * P cfg < 2 ^ 53 \<and>
     6 * work_package_size cfg + 3000 * witness_size cfg < 2 ^ 53"

definition in_range_B :: "dc_settings \<Rightarrow> bool" where
  "in_range_B cfg \<longleftrightarrow>
     0 < C cfg \<and> 0 < P cfg \<and> 0 < T cfg \<and> 0 < core_bandwidth cfg \<and>
     0 < work_package_size cfg \<and> 0 < witness_size cfg \<and> 0 < CHUNK_SIZE cfg \<and>
     T cfg < 2 ^ 53 \<and> core_bandwidth cfg * P cfg < 2 ^ 53 \<and>
     30 * (work_package_size cfg + witness_size cfg) < 2 ^ 53"

section \<open>Errors and the random sources\<close>

datatype error = ValueError string | ZeroDivisionError

text \<open>
  A generator is the sequence of raw values it will deliver next.  Python's \<^verbatim>\<open>random\<close>
  module and \<^verbatim>\<open>numpy.random\<close> keep separate global generators; \<^verbatim>\<open>random.seed\<close>
  replaces the first one by a sequence that depends on the seed only.
\<close>

type_synonym draws = "nat \<Rightarrow> nat"

record rng =
  py_random :: draws
  py_seeded :: "int \<Rightarrow> draws"
  np_random :: draws

definition rest :: "draws \<Rightarrow> draws" where
  "rest d = (\<lambda>i. d (Suc i))"

text \<open>\<^verbatim>\<open>random.randint(a, b)\<close>, called with literal bounds \<open>a \<le> b\<close> only.\<close>

definition randint :: "int \<Rightarrow> int \<Rightarrow> rng \<Rightarrow> int \<times> rng" where
  "randint a b g = (a + int (py_random g 0) mod (b - a + 1), g\<lparr>py_random := rest (py_random g)\<rparr>)"

text \<open>\<^verbatim>\<open>random.random()\<close>: a multiple of \<open>2 ^ -53\<close> in \<open>[0, 1)\<close>.\<close>

definition random_py :: "rng \<Rightarrow> rat \<times> rng" where
  "random_py g =
     (of_int (int (py_random g 0) mod 2 ^ 53) / 2 ^ 53, g\<lparr>py_random := rest (py_random g)\<rparr>)"

definition seed :: "int \<Rightarrow> rng \<Rightarrow> rng" where
  "seed x g = g\<lparr>py_random := py_seeded g x\<rparr>"

text \<open>
  Modelled from the spec: \<^verbatim>\<open>numpy.random.multinomial(n, [1/C]*C)\<close> is library code outside
  the repository.  The spec describes it as placing \<open>n\<close> independent balls into \<open>C\<close> bins;
  each ball takes one raw draw, reduced modulo the number of bins.  numpy rejects a
  negative \<open>n\<close>.
\<close>

fun distribute :: "nat \<Rightarrow> nat \<Rightarrow> draws \<Rightarrow> int list \<times> draws" where
  "distribute 0 c d = (replicate c 0, d)"
| "distribute (Suc n) c d =
     (let bin = d 0 mod c;
          (xs, d') = distribute n c (rest d)
      in (xs[bin := xs ! bin + 1], d'))"

definition multinomial :: "int \<Rightarrow> nat \<Rightarrow> rng \<Rightarrow> error + (int list \<times> rng)" where
  "multinomial n c g =
     (if n < 0 then Inl (ValueError ''n < 0'')
      else (let (xs, d') = distribute (nat n) c (np_random g)
            in Inr (xs, g\<lparr>np_random := d'\<rparr>)))"

text \<open>\<^verbatim>\<open>numpy.mean\<close> of a series; \<open>None\<close> is the \<^verbatim>\<open>nan\<close> of an empty one.\<close>

definition np_mean :: "rat list \<Rightarrow> rat option" where
  "np_mean xs = (if xs = [] then None else Some (sum_list xs / of_nat (length xs)))"

section \<open>Variant A: \<^verbatim>\<open>scripts/simulation.py\<close>\<close>

text \<open>The scenario branch at the head of the slot body: workload and witness counts.\<close>

definition generate_workload_A :: "string \<Rightarrow> rng \<Rightarrow> error + (int \<times> int \<times> rng)" where
  "generate_workload_A scenario g =
     (if scenario = ''stateless'' then
        (let (workloads, g1) = randint 1 3 g;
             (witnesses, g2) = randint 100 500 g1
         in Inr (workloads, witnesses, g2))
      else if scenario = ''state-heavy'' then
        (let (workloads, g1) = randint 3 6 g;
             (witnesses, g2) = randint 1000 3000 g1
         in Inr (workloads, witnesses, g2))
      else if scenario = ''mixed'' then
        (let (u, g0) = random_py g in
         if u < 8 / 10 then
           (let (workloads, g1) = randint 1 3 g0;
                (witnesses, g2) = randint 100 500 g1
            in Inr (workloads, witnesses, g2))
         else
           (let (workloads, g1) = randint 3 6 g0;
                (witnesses, g2) = randint 1000 3000 g1
            in Inr (workloads, witnesses, g2)))
      else Inl (ValueError ''Unknown scenario.''))"

text \<open>
  One pass of \<^verbatim>\<open>for i in range(C)\<close>; the accumulators are
  \<^verbatim>\<open>slot_contention_count\<close> and \<^verbatim>\<open>total_processed_data_in_slot\<close>.  Both arrays come
  from \<open>multinomial\<close> and have \<open>C\<close> entries, so every index read is in range
  (lemma \<open>multinomial_length\<close>).
\<close>

definition core_step_A ::
  "settings \<Rightarrow> int list \<Rightarrow> int list \<Rightarrow> nat \<Rightarrow> int \<times> int \<Rightarrow> int \<times> int" where
  "core_step_A cfg workloads_per_core witnesses_per_core i acc =
     (let (slot_contention_count, total_processed_data_in_slot) = acc;
          wp_data_per_core = workloads_per_core ! i * work_package_size cfg;
          wit_data_per_core = witnesses_per_core ! i * witness_size cfg;
          total_data_rate_per_core =
            (of_int (wp_data_per_core + wit_data_per_core) :: rat) / of_int (P cfg);
          slot_contention_count' =
            (if total_data_rate_per_core > of_int (core_bandwidth cfg)
             then slot_contention_count + 1 else slot_contention_count);
          processed_data_per_core =
            min (core_bandwidth cfg * P cfg) (wp_data_per_core + wit_data_per_core)
      in (slot_contention_count', total_processed_data_in_slot + processed_data_per_core))"

definition cores_loop_A :: "settings \<Rightarrow> int list \<Rightarrow> int list \<Rightarrow> int \<times> int" where
  "cores_loop_A cfg workloads_per_core witnesses_per_core =
     fold (core_step_A cfg workloads_per_core witnesses_per_core) [0..<C cfg] (0, 0)"

text \<open>The local variables of one slot, as they stand at the end of the slot body.\<close>

record locals_A =
  workloads :: int
  witnesses :: int
  workloads_per_core :: "int list"
  witnesses_per_core :: "int list"
  slot_contention_count :: int
  total_processed_data_in_slot :: int
  effective_tps_A :: rat
  cost :: rat

text \<open>The reseeding at the head of the slot body, every 100 slots in epoch mode.\<close>

definition epoch_reseed :: "bool \<Rightarrow> nat \<Rightarrow> rng \<Rightarrow> rng" where
  "epoch_reseed epoch_mode slot g =
     (if epoch_mode \<and> slot mod 100 = 0
      then (let (x, g') = randint 0 (2 ^ 32 - 1) g in seed x g') else g)"

definition slot_body_A ::
  "settings \<Rightarrow> string \<Rightarrow> bool \<Rightarrow> nat \<Rightarrow> rng \<Rightarrow> error + (locals_A \<times> rng)" where
  "slot_body_A cfg scenario epoch_mode slot g =
     (let g0 = epoch_reseed epoch_mode slot g
      in case generate_workload_A scenario g0 of
           Inl e \<Rightarrow> Inl e
         | Inr (wl, wit, g1) \<Rightarrow>
        (case multinomial wl (C cfg) g1 of
           Inl e \<Rightarrow> Inl e
         | Inr (wpc, g2) \<Rightarrow>
        (case multinomial wit (C cfg) g2 of
           Inl e \<Rightarrow> Inl e
         | Inr (witpc, g3) \<Rightarrow>
           (let (cnt, total) = cores_loop_A cfg wpc witpc;
                total_extrinsics_processed =
                  (of_int total / of_int (work_package_size cfg)) * of_int (T cfg);
                effective_tps = total_extrinsics_processed / of_int (P cfg);
                tickets = wl * T cfg;
                cst = GAMMA_A cfg * of_int wl + GAMMA_Z cfg * of_int tickets
            in Inr (\<lparr> workloads = wl, witnesses = wit, workloads_per_core = wpc,
                      witnesses_per_core = witpc, slot_contention_count = cnt,
                      total_processed_data_in_slot = total,
                      effective_tps_A = effective_tps, cost = cst \<rparr>, g3)))))"

text \<open>The four series the loop appends to.\<close>

record series_A =
  contention_history :: "bool list"
  costs :: "rat list"
  tps_effective :: "rat list"
  tps_finalized :: "rat list"

definition slot_A ::
  "settings \<Rightarrow> string \<Rightarrow> bool \<Rightarrow> nat \<Rightarrow> series_A \<times> rng \<Rightarrow> error + (series_A \<times> rng)" where
  "slot_A cfg scenario epoch_mode slot st =
     (case slot_body_A cfg scenario epoch_mode slot (snd st) of
        Inl e \<Rightarrow> Inl e
      | Inr (l, g') \<Rightarrow>
          (let s = fst st;
               te = tps_effective s @ [effective_tps_A l];
               tf = tps_finalized s @
                      [if slot \<ge> finality_delay_slots cfg
                       then te ! (slot - finality_delay_slots cfg) else 0]
           in Inr (\<lparr> contention_history = contention_history s @ [slot_contention_count l > 0],
                     costs = costs s @ [cost l],
                     tps_effective = te,
                     tps_finalized = tf \<rparr>, g')))"

text \<open>\<^verbatim>\<open>for slot in range(num_slots)\<close>: the first error ends the run.\<close>

fun slots_A ::
  "settings \<Rightarrow> string \<Rightarrow> bool \<Rightarrow> nat list \<Rightarrow> series_A \<times> rng \<Rightarrow> error + (series_A \<times> rng)" where
  "slots_A cfg scenario epoch_mode [] st = Inr st"
| "slots_A cfg scenario epoch_mode (slot # later) st =
     (case slot_A cfg scenario epoch_mode slot st of
        Inl e \<Rightarrow> Inl e
      | Inr st' \<Rightarrow> slots_A cfg scenario epoch_mode later st')"

text \<open>
  \<^verbatim>\<open>numpy.linspace(0.3, 0.7, num)\<close>; it rejects a negative \<open>num\<close>, naming it in
  decimal.  The slot body reads \<^verbatim>\<open>priorities[slot]\<close> into a variable that is never
  used.
\<close>

fun digits :: "nat \<Rightarrow> string" where
  "digits n = (if n < 10 then [char_of (48 + n)]
               else digits (n div 10) @ [char_of (48 + n mod 10)])"

definition str_int :: "int \<Rightarrow> string" where
  "str_int i = (if i < 0 then CHR ''-'' # digits (nat (- i)) else digits (nat i))"

definition linspace :: "rat \<Rightarrow> rat \<Rightarrow> int \<Rightarrow> error + rat list" where
  "linspace start stop num =
     (if num < 0
      then Inl (ValueError (''Number of samples, '' @ str_int num @ '', must be non-negative.''))
      else Inr (map (\<lambda>i. start + of_nat i * ((stop - start) / of_int (num - 1))) [0..<nat num]))"

text \<open>
  The file system, as far as the run touches it: file name to rows of cells.  The working
  directory is taken to be writable: the \<^verbatim>\<open>open\<close> of the source does not fail here.
\<close>

datatype cell = CStr string | CInt int | CNum rat | CBool bool

type_synonym files = "string \<rightharpoonup> cell list list"

record result_A =
  scenario_A :: string
  tps_theoretical :: rat
  avg_tps_effective :: "rat option"
  avg_tps_finalized :: "rat option"
  avg_cost :: "rat option"
  contention_rate :: rat
  res_tps_effective :: "rat list"
  res_tps_finalized :: "rat list"
  res_contention_history :: "bool list"

definition csv_rows_A :: "int \<Rightarrow> series_A \<Rightarrow> cell list list" where
  "csv_rows_A num_slots s =
     [CStr ''Slot'', CStr ''Effective TPS'', CStr ''Finalized TPS'', CStr ''Contention''] #
     map (\<lambda>slot. [CInt (int slot), CNum (tps_effective s ! slot),
                   CNum (tps_finalized s ! slot), CBool (contention_history s ! slot)])
         [0..<nat num_slots]"

definition run_simulation_A ::
  "settings \<Rightarrow> int \<Rightarrow> string \<Rightarrow> bool \<Rightarrow> rng \<Rightarrow> files \<Rightarrow> error + (result_A \<times> rng \<times> files)" where
  "run_simulation_A cfg num_slots0 scenario epoch_mode g fs =
     (let num_slots = (if epoch_mode then 600 else num_slots0) in
      case linspace (3 / 10) (7 / 10) num_slots of
        Inl e \<Rightarrow> Inl e
      | Inr priorities \<Rightarrow>
     (case slots_A cfg scenario epoch_mode [0..<nat num_slots]
             (\<lparr> contention_history = [], costs = [], tps_effective = [], tps_finalized = [] \<rparr>, g) of
        Inl e \<Rightarrow> Inl e
      | Inr (s, g') \<Rightarrow>
          (let tps_th = of_int (int (C cfg) * T cfg) / of_int (P cfg);
               avg_e = np_mean (tps_effective s);
               avg_f = np_mean (tps_finalized s);
               avg_c = np_mean (costs s)
           in if num_slots = 0 then Inl ZeroDivisionError
              else
                (let rate = of_nat (length (filter id (contention_history s)))
                              / of_int num_slots * 100;
                     fs' = fs(''simulation_results.csv'' \<mapsto> csv_rows_A num_slots s)
                 in Inr (\<lparr> scenario_A = scenario, tps_theoretical = tps_th,
                           avg_tps_effective = avg_e, avg_tps_finalized = avg_f,
                           avg_cost = avg_c, contention_rate = rate,
                           res_tps_effective = tps_effective s,
                           res_tps_finalized = tps_finalized s,
                           res_contention_history = contention_history s \<rparr>, g', fs')))))"

section \<open>Variant B: \<^verbatim>\<open>tools/jam_datacenter_simulator.py\<close>\<close>

text \<open>The nested helper \<^verbatim>\<open>workloads_for_slot\<close>; its last branch is a plain \<^verbatim>\<open>else\<close>.\<close>

definition workloads_for_slot :: "string \<Rightarrow> rng \<Rightarrow> int \<times> rng" where
  "workloads_for_slot scenario g =
     (if scenario = ''stateless'' then randint 5 15 g
      else if scenario = ''state-heavy'' then randint 15 30 g
      else randint 5 30 g)"

text \<open>
  One pass of \<^verbatim>\<open>for core_idx in range(C)\<close>; the accumulators are \<^verbatim>\<open>slot_contended\<close>
  and \<^verbatim>\<open>processed_bytes\<close>.  \<^verbatim>\<open>//\<close> is Python's floor division.
\<close>

definition core_step_B ::
  "dc_settings \<Rightarrow> int \<Rightarrow> int list \<Rightarrow> nat \<Rightarrow> bool \<times> int \<Rightarrow> bool \<times> int" where
  "core_step_B cfg num_workloads chunks_per_core core_idx acc =
     (let (slot_contended, processed_bytes) = acc;
          witness_bytes = (num_workloads div int (C cfg)) * witness_size cfg;
          needed = chunks_per_core ! core_idx * CHUNK_SIZE cfg + witness_bytes;
          capacity = core_bandwidth cfg * P cfg;
          slot_contended' = (if needed > capacity then True else slot_contended)
      in (slot_contended', processed_bytes + min needed capacity))"

definition cores_loop_B :: "dc_settings \<Rightarrow> int \<Rightarrow> int list \<Rightarrow> bool \<times> int" where
  "cores_loop_B cfg num_workloads chunks_per_core =
     fold (core_step_B cfg num_workloads chunks_per_core) [0..<C cfg] (False, 0)"

record locals_B =
  num_workloads :: int
  total_chunks :: int
  chunks_per_core :: "int list"
  slot_contended :: bool
  processed_bytes :: int
  effective_tps_B :: rat
  slot_cost :: rat

definition slot_body_B :: "dc_settings \<Rightarrow> string \<Rightarrow> rng \<Rightarrow> error + (locals_B \<times> rng)" where
  "slot_body_B cfg scenario g =
     (let (nw, g1) = workloads_for_slot scenario g;
          chunks = nw * (work_package_size cfg div CHUNK_SIZE cfg)
      in case multinomial chunks (C cfg) g1 of
           Inl e \<Rightarrow> Inl e
         | Inr (cpc, g2) \<Rightarrow>
           (let (contended, processed) = cores_loop_B cfg nw cpc;
                extrinsics_processed =
                  (of_int processed / of_int (work_package_size cfg)) * of_int (T cfg);
                effective_tps = extrinsics_processed / of_int (P cfg);
                tickets = nw * T cfg;
                cst = GAMMA_A cfg * of_int nw + GAMMA_Z cfg * of_int tickets
            in Inr (\<lparr> num_workloads = nw, total_chunks = chunks, chunks_per_core = cpc,
                      slot_contended = contended, processed_bytes = processed,
                      effective_tps_B = effective_tps, slot_cost = cst \<rparr>, g2)))"

record series_B =
  contention_flags :: "bool list"
  effective_tps_series :: "rat list"
  finalized_tps_series :: "rat list"
  cost_series :: "rat list"

definition slot_B ::
  "dc_settings \<Rightarrow> string \<Rightarrow> nat \<Rightarrow> series_B \<times> rng \<Rightarrow> error + (series_B \<times> rng)" where
  "slot_B cfg scenario slot_idx st =
     (case slot_body_B cfg scenario (snd st) of
        Inl e \<Rightarrow> Inl e
      | Inr (l, g') \<Rightarrow>
          (let s = fst st;
               es = effective_tps_series s @ [effective_tps_B l];
               fz = finalized_tps_series s @
                      [if slot_idx \<ge> finality_delay_slots cfg
                       then es ! (slot_idx - finality_delay_slots cfg) else 0]
           in Inr (\<lparr> contention_flags = contention_flags s @ [slot_contended l],
                     effective_tps_series = es,
                     finalized_tps_series = fz,
                     cost_series = cost_series s @ [slot_cost l] \<rparr>, g')))"

fun slots_B ::
  "dc_settings \<Rightarrow> string \<Rightarrow> nat list \<Rightarrow> series_B \<times> rng \<Rightarrow> error + (series_B \<times> rng)" where
  "slots_B cfg scenario [] st = Inr st"
| "slots_B cfg scenario (slot_idx # later) st =
     (case slot_B cfg scenario slot_idx st of
        Inl e \<Rightarrow> Inl e
      | Inr st' \<Rightarrow> slots_B cfg scenario later st')"

record result_B =
  scenario_B :: string
  theoretical_tps :: rat
  avg_effective_tps :: "rat option"
  avg_finalized_tps :: "rat option"
  contention_rate_pct :: rat
  avg_cost_per_slot_usd :: "rat option"
  effective_series :: "rat list"
  finalized_series :: "rat list"
  contention_series :: "bool list"
  res_cost_series :: "rat list"

definition run_simulation_B ::
  "dc_settings \<Rightarrow> int \<Rightarrow> string \<Rightarrow> rng \<Rightarrow> error + (result_B \<times> rng)" where
  "run_simulation_B cfg num_slots scenario g =
     (case slots_B cfg scenario [0..<nat num_slots]
             (\<lparr> contention_flags = [], effective_tps_series = [],
                finalized_tps_series = [], cost_series = [] \<rparr>, g) of
        Inl e \<Rightarrow> Inl e
      | Inr (s, g') \<Rightarrow>
          (let th = of_int (int (C cfg) * T cfg) / of_int (P cfg);
               avg_e = np_mean (effective_tps_series s);
               avg_f = np_mean (finalized_tps_series s)
           in if num_slots = 0 then Inl ZeroDivisionError
              else Inr (\<lparr> scenario_B = scenario, theoretical_tps = th,
                          avg_effective_tps = avg_e, avg_finalized_tps = avg_f,
                          contention_rate_pct =
                            100 * of_nat (length (filter id (contention_flags s)))
                              / of_int num_slots,
                          avg_cost_per_slot_usd = np_mean (cost_series s),
                          effective_series = effective_tps_series s,
                          finalized_series = finalized_tps_series s,
                          contention_series = contention_flags s,
                          res_cost_series = cost_series s \<rparr>, g')))"

section \<open>The quantities the specification names\<close>

text \<open>
  Demand and capacity of a core as the specification words them; the loops above do not
  use these definitions.
\<close>

definition capacity_bytes :: "'a settings_scheme \<Rightarrow> int" where
  "capacity_bytes cfg = core_bandwidth cfg * P cfg"

definition demand_bytes_A :: "settings \<Rightarrow> locals_A \<Rightarrow> nat \<Rightarrow> int" where
  "demand_bytes_A cfg l i =
     workloads_per_core l ! i * work_package_size cfg + witnesses_per_core l ! i * witness_size cfg"

text \<open>
  Variant B draws no witness count; its loop takes one witness per workload.  The share of
  a core, read off the loop body: \<open>witness_count / core_count\<close> rounded down to whole
  witnesses, times the witness size.
\<close>

definition witness_share_B :: "dc_settings \<Rightarrow> locals_B \<Rightarrow> int" where
  "witness_share_B cfg l =
     \<lfloor>(of_int (num_workloads l) :: rat) / of_nat (C cfg)\<rfloor> * witness_size cfg"

definition demand_bytes_B :: "dc_settings \<Rightarrow> locals_B \<Rightarrow> nat \<Rightarrow> int" where
  "demand_bytes_B cfg l i = chunks_per_core l ! i * CHUNK_SIZE cfg + witness_share_B cfg l"


text \<open>
  A run that has no file statement, seen as an operation on the file system: the files
  pass through.
\<close>

definition without_files :: "error + 'a \<Rightarrow> files \<Rightarrow> error + ('a \<times> files)" where
  "without_files x fs = (case x of Inl e \<Rightarrow> Inl e | Inr a \<Rightarrow> Inr (a, fs))"

definition known_scenario :: "string \<Rightarrow> bool" where
  "known_scenario scenario \<longleftrightarrow>
     scenario = ''stateless'' \<or> scenario = ''state-heavy'' \<or> scenario = ''mixed''"

text \<open>A series that repeats another one \<open>d\<close> places later, after \<open>d\<close> zeros.\<close>

definition shifted :: "nat \<Rightarrow> rat list \<Rightarrow> rat list \<Rightarrow> bool" where
  "shifted d es fs \<longleftrightarrow> length fs = length es \<and>
     (\<forall>i<length es. fs ! i = (if d \<le> i then es ! (i - d) else 0))"

text \<open>
  The rows variant A writes, read off the result it returns: the header, then one row per
  slot.
\<close>

definition csv_of_result :: "result_A \<Rightarrow> cell list list" where
  "csv_of_result r =
     [CStr ''Slot'', CStr ''Effective TPS'', CStr ''Finalized TPS'', CStr ''Contention''] #
     map (\<lambda>slot. [CInt (int slot), CNum (res_tps_effective r ! slot),
                   CNum (res_tps_finalized r ! slot), CBool (res_contention_history r ! slot)])
         [0..<length (res_tps_effective r)]"

text \<open>A file system without files.\<close>

definition no_files :: files where
  "no_files = Map.empty"

text \<open>The files' settings on one core and on two, for evaluating the model.\<close>

definition single_core_A :: settings where
  "single_core_A = settings_A\<lparr>C := 1\<rparr>"

definition single_core_B :: dc_settings where
  "single_core_B = settings_B\<lparr>C := 1\<rparr>"

definition two_core_A :: settings where
  "two_core_A = settings_A\<lparr>C := 2\<rparr>"

definition two_core_B :: dc_settings where
  "two_core_B = settings_B\<lparr>C := 2\<rparr>"

text \<open>
  Variant B with \<open>C = 16\<close>, the value its settings block suggests for a development
  machine; the bandwidth follows from \<open>C\<close> as in the file.
\<close>

definition settings_B_16 :: dc_settings where
  "settings_B_16 = settings_B\<lparr>C := 16, core_bandwidth := (3125 * 1024 * 1024) div 16\<rparr>"

text \<open>The allocation that puts all \<open>k\<close> units on core 0 of \<open>c\<close> cores.\<close>

definition all_on_core_0 :: "nat \<Rightarrow> int \<Rightarrow> int list" where
  "all_on_core_0 c k = (replicate c 0)[0 := k]"

text \<open>
  Generators for evaluating the model on concrete runs: one delivers zero forever, the
  other 15 to Python's draws (every \<^verbatim>\<open>randint(15, 30)\<close> is then 30) and zero to numpy's.
\<close>

definition rng_zero :: rng where
  "rng_zero = \<lparr> py_random = (\<lambda>_. 0), py_seeded = (\<lambda>_ _. 0), np_random = (\<lambda>_. 0) \<rparr>"

definition rng_heavy :: rng where
  "rng_heavy = \<lparr> py_random = (\<lambda>_. 15), py_seeded = (\<lambda>_ _. 15), np_random = (\<lambda>_. 0) \<rparr>"

section \<open>The distributor\<close>

lemma distribute_length: "length (fst (distribute n c d)) = c"
  by (induction n arbitrary: d) (simp_all add: split_def Let_def)

lemma distribute_nonneg_all: "\<forall>i<c. 0 \<le> fst (distribute n c d) ! i"
proof (induction n arbitrary: d)
  case 0
  then show ?case by simp
next
  case (Suc n)
  have len: "length (fst (distribute n c (rest d))) = c" by (rule distribute_length)
  have ih: "\<forall>i<c. 0 \<le> fst (distribute n c (rest d)) ! i" by (rule Suc.IH)
  show ?case
  proof (intro allI impI)
    fix i assume i: "i < c"
    then have "0 < c" by simp
    then have "d 0 mod c < c" by simp
    with ih have b: "0 \<le> fst (distribute n c (rest d)) ! (d 0 mod c)" by blast
    from ih i have a: "0 \<le> fst (distribute n c (rest d)) ! i" by blast
    show "0 \<le> fst (distribute (Suc n) c d) ! i"
      using a b i len by (simp add: split_def Let_def nth_list_update)
  qed
qed

lemma distribute_nonneg: "i < c \<Longrightarrow> 0 \<le> fst (distribute n c d) ! i"
  using distribute_nonneg_all by blast

lemma sum_list_bump:
  "i < length xs \<Longrightarrow> sum_list (xs[i := xs ! i + 1]) = sum_list xs + (1::int)"
proof (induction xs arbitrary: i)
  case Nil
  then show ?case by simp
next
  case (Cons x xs)
  then show ?case by (cases i) simp_all
qed

lemma distribute_sum: "0 < c \<Longrightarrow> sum_list (fst (distribute n c d)) = int n"
proof (induction n arbitrary: d)
  case 0
  then show ?case by (simp add: sum_list_replicate)
next
  case (Suc n)
  have "d 0 mod c < length (fst (distribute n c (rest d)))"
    using Suc.prems by (simp add: distribute_length)
  then show ?case
    using Suc.IH [OF Suc.prems, of "rest d"]
    by (simp add: split_def Let_def sum_list_bump)
qed

lemma fold_core_step_A:
  "fold (core_step_A cfg wpc witpc) [0..<n] (c0, t0) =
     (c0 + int (length (filter (\<lambda>i. of_int (core_bandwidth cfg) <
             (of_int (wpc ! i * work_package_size cfg + witpc ! i * witness_size cfg) :: rat) / of_int (P cfg)) [0..<n])),
      t0 + (\<Sum>i\<leftarrow>[0..<n]. min (core_bandwidth cfg * P cfg)
             (wpc ! i * work_package_size cfg + witpc ! i * witness_size cfg)))"
  by (induction n) (simp_all add: core_step_A_def Let_def)

lemma fold_core_step_B:
  "fold (core_step_B cfg nw cpc) [0..<n] (b0, t0) =
     (b0 \<or> (\<exists>i<n. core_bandwidth cfg * P cfg <
               cpc ! i * CHUNK_SIZE cfg + (nw div int (C cfg)) * witness_size cfg),
      t0 + (\<Sum>i\<leftarrow>[0..<n]. min (cpc ! i * CHUNK_SIZE cfg + (nw div int (C cfg)) * witness_size cfg)
             (core_bandwidth cfg * P cfg)))"
  by (induction n) (auto simp add: core_step_B_def Let_def less_Suc_eq)

lemma multinomial_length: "multinomial n c g = Inr (xs, g') \<Longrightarrow> length xs = c"
  using distribute_length [of "nat n" c "np_random g"]
  by (auto simp: multinomial_def split_def Let_def split: if_splits)

lemma multinomial_nonneg: "multinomial n c g = Inr (xs, g') \<Longrightarrow> i < c \<Longrightarrow> 0 \<le> xs ! i"
  using distribute_nonneg [of i c "nat n" "np_random g"]
  by (auto simp: multinomial_def split_def Let_def split: if_splits)

lemma multinomial_sum: "multinomial n c g = Inr (xs, g') \<Longrightarrow> 0 < c \<Longrightarrow> sum_list xs = n"
  using distribute_sum [of c "nat n" "np_random g"]
  by (auto simp: multinomial_def split_def Let_def split: if_splits)

lemma multinomial_returns: "0 \<le> n \<Longrightarrow> \<exists>xs g'. multinomial n c g = Inr (xs, g')"
  by (simp add: multinomial_def split_def Let_def)

lemma randint_range: "a \<le> b \<Longrightarrow> a \<le> fst (randint a b g) \<and> fst (randint a b g) \<le> b"
proof -
  assume "a \<le> b"
  then have m: "0 < b - a + 1" by simp
  have "0 \<le> int (py_random g 0) mod (b - a + 1)" using m by simp
  moreover have "int (py_random g 0) mod (b - a + 1) < b - a + 1"
    using m by (rule pos_mod_bound)
  ultimately show ?thesis by (simp add: randint_def)
qed

section \<open>The core loops and the slot body\<close>

lemma cores_loop_A_eq:
  "cores_loop_A cfg wpc witpc =
     (int (length (filter (\<lambda>i. of_int (core_bandwidth cfg) <
             (of_int (wpc ! i * work_package_size cfg + witpc ! i * witness_size cfg) :: rat) / of_int (P cfg)) [0..<C cfg])),
      (\<Sum>i\<leftarrow>[0..<C cfg]. min (core_bandwidth cfg * P cfg)
             (wpc ! i * work_package_size cfg + witpc ! i * witness_size cfg)))"
  by (simp add: cores_loop_A_def fold_core_step_A)

lemma floor_share: "\<lfloor>(of_int n :: rat) / of_nat c\<rfloor> = n div int c"
  using floor_divide_of_int_eq [of n "int c", where ?'a = rat] by simp

lemma cores_loop_B_eq:
  "cores_loop_B cfg nw cpc =
     ((\<exists>i<C cfg. core_bandwidth cfg * P cfg <
               cpc ! i * CHUNK_SIZE cfg + (nw div int (C cfg)) * witness_size cfg),
      (\<Sum>i\<leftarrow>[0..<C cfg]. min (cpc ! i * CHUNK_SIZE cfg + (nw div int (C cfg)) * witness_size cfg)
             (core_bandwidth cfg * P cfg)))"
  by (simp add: cores_loop_B_def fold_core_step_B)

lemma slot_body_A_facts:
  assumes "slot_body_A cfg scenario epoch_mode slot g = Inr (l, g')"
  shows "\<exists>g1 g2.
           generate_workload_A scenario (epoch_reseed epoch_mode slot g) = Inr (workloads l, witnesses l, g1) \<and>
           multinomial (workloads l) (C cfg) g1 = Inr (workloads_per_core l, g2) \<and>
           multinomial (witnesses l) (C cfg) g2 = Inr (witnesses_per_core l, g') \<and>
           cores_loop_A cfg (workloads_per_core l) (witnesses_per_core l) =
             (slot_contention_count l, total_processed_data_in_slot l) \<and>
           effective_tps_A l =
             (of_int (total_processed_data_in_slot l) / of_int (work_package_size cfg))
               * of_int (T cfg) / of_int (P cfg) \<and>
           cost l = GAMMA_A cfg * of_int (workloads l)
                      + GAMMA_Z cfg * of_int (workloads l * T cfg)"
  using assms unfolding slot_body_A_def Let_def
  by (auto split: sum.splits prod.splits)

lemma slot_body_B_facts:
  assumes "slot_body_B cfg scenario g = Inr (l, g')"
  shows "\<exists>g1.
           workloads_for_slot scenario g = (num_workloads l, g1) \<and>
           total_chunks l = num_workloads l * (work_package_size cfg div CHUNK_SIZE cfg) \<and>
           multinomial (total_chunks l) (C cfg) g1 = Inr (chunks_per_core l, g') \<and>
           cores_loop_B cfg (num_workloads l) (chunks_per_core l) =
             (slot_contended l, processed_bytes l) \<and>
           effective_tps_B l =
             (of_int (processed_bytes l) / of_int (work_package_size cfg))
               * of_int (T cfg) / of_int (P cfg) \<and>
           slot_cost l = GAMMA_A cfg * of_int (num_workloads l)
                      + GAMMA_Z cfg * of_int (num_workloads l * T cfg)"
  using assms unfolding slot_body_B_def Let_def
  by (auto split: sum.splits prod.splits)

lemma sum_list_upt_sum: "(\<Sum>i\<leftarrow>[0..<n]. f i) = (\<Sum>i<n. (f i :: int))"
  by (simp add: interv_sum_list_conv_sum_set_nat atLeast0LessThan)

lemma rate_over_bandwidth:
  "0 < p \<Longrightarrow> ((of_int b :: rat) < of_int d / of_int p) = (b * p < d)"
proof -
  assume p: "0 < p"
  then have "((of_int b :: rat) < of_int d / of_int p) = ((of_int b :: rat) * of_int p < of_int d)"
    by (simp add: pos_less_divide_eq)
  also have "\<dots> = ((of_int (b * p) :: rat) < of_int d)" by simp
  also have "\<dots> = (b * p < d)" by (simp only: of_int_less_iff)
  finally show ?thesis .
qed


lemma cores_loop_A_count:
  assumes "0 < P cfg"
  shows "fst (cores_loop_A cfg wpc witpc) =
     int (length (filter (\<lambda>i. core_bandwidth cfg * P cfg <
             wpc ! i * work_package_size cfg + witpc ! i * witness_size cfg) [0..<C cfg]))"
proof -
  have "(\<lambda>i. of_int (core_bandwidth cfg) <
             (of_int (wpc ! i * work_package_size cfg + witpc ! i * witness_size cfg) :: rat)
               / of_int (P cfg)) =
        (\<lambda>i. core_bandwidth cfg * P cfg <
             wpc ! i * work_package_size cfg + witpc ! i * witness_size cfg)"
    by (rule ext) (rule rate_over_bandwidth [OF assms])
  then show ?thesis by (simp only: cores_loop_A_eq fst_conv)
qed

section \<open>Concrete slots and the bytes processed\<close>

text \<open>Concrete slots, evaluated: one core, the generator that delivers zero.\<close>

lemma small_settings_fields [simp]:
  "C single_core_A = 1"
  "P single_core_A = 6"
  "T single_core_A = 128"
  "core_bandwidth single_core_A = 2097152"
  "work_package_size single_core_A = 13794305"
  "witness_size single_core_A = 640"
  "finality_delay_slots single_core_A = 2"
  "C two_core_A = 2"
  "P two_core_A = 6"
  "T two_core_A = 128"
  "core_bandwidth two_core_A = 2097152"
  "work_package_size two_core_A = 13794305"
  "witness_size two_core_A = 640"
  "finality_delay_slots two_core_A = 2"
  "C single_core_B = 1"
  "P single_core_B = 6"
  "T single_core_B = 128"
  "core_bandwidth single_core_B = 9609384"
  "work_package_size single_core_B = 13794305"
  "witness_size single_core_B = 640"
  "finality_delay_slots single_core_B = 2"
  "CHUNK_SIZE single_core_B = 1048576"
  "C two_core_B = 2"
  "P two_core_B = 6"
  "T two_core_B = 128"
  "core_bandwidth two_core_B = 9609384"
  "work_package_size two_core_B = 13794305"
  "witness_size two_core_B = 640"
  "finality_delay_slots two_core_B = 2"
  "CHUNK_SIZE two_core_B = 1048576"
  by (simp_all add: single_core_A_def single_core_B_def two_core_A_def two_core_B_def
      settings_A_def settings_B_def)

lemma distribute_zero_draws:
  "0 < c \<Longrightarrow> distribute n c (\<lambda>_. 0) = ((replicate c 0)[0 := int n], (\<lambda>_. 0))"
proof (induction n)
  case 0
  then show ?case by (cases c) simp_all
next
  case (Suc n)
  then show ?case by (cases c) (simp_all add: rest_def)
qed

lemmas eval_defs = slot_body_A_def epoch_reseed_def generate_workload_A_def randint_def
  multinomial_def rng_zero_def rest_def settings_A_def cores_loop_A_def core_step_A_def Let_def
  distribute_zero_draws random_py_def seed_def
  slot_body_B_def workloads_for_slot_def settings_B_def cores_loop_B_def core_step_B_def
  single_core_A_def single_core_B_def two_core_A_def two_core_B_def

lemma single_core_slot_A:
  "slot_body_A single_core_A ''stateless'' False 0 rng_zero =
     Inr (\<lparr>workloads = 1, witnesses = 100, workloads_per_core = [1],
           witnesses_per_core = [100], slot_contention_count = 1,
           total_processed_data_in_slot = 12582912,
           effective_tps_A = 268435456 / 13794305, cost = 13 / 200\<rparr>, rng_zero)"
  by (simp add: eval_defs)

lemma single_core_slot_B:
  "slot_body_B single_core_B ''stateless'' rng_zero =
     Inr (\<lparr>num_workloads = 5, total_chunks = 65, chunks_per_core = [65],
           slot_contended = True, processed_bytes = 57656304,
           effective_tps_B = 1230001152 / 13794305, slot_cost = 13 / 40\<rparr>, rng_zero)"
  by (simp add: eval_defs)

lemma processed_A_sum:
  assumes "slot_body_A cfg scenario epoch_mode slot g = Inr (l, g')"
  shows "total_processed_data_in_slot l =
      (\<Sum>i<C cfg. min (demand_bytes_A cfg l i) (capacity_bytes cfg))"
proof -
  have "cores_loop_A cfg (workloads_per_core l) (witnesses_per_core l) =
      (slot_contention_count l, total_processed_data_in_slot l)"
    using assms slot_body_A_facts by blast
  then show ?thesis
    by (simp add: cores_loop_A_eq sum_list_upt_sum capacity_bytes_def demand_bytes_A_def
        min.commute)
qed

lemma processed_B_sum:
  assumes "slot_body_B cfg scenario g = Inr (l, g')"
  shows "processed_bytes l =
      (\<Sum>i<C cfg. min (demand_bytes_B cfg l i) (capacity_bytes cfg))"
proof -
  have "cores_loop_B cfg (num_workloads l) (chunks_per_core l) =
      (slot_contended l, processed_bytes l)"
    using assms slot_body_B_facts by blast
  then show ?thesis
    by (simp add: cores_loop_B_eq sum_list_upt_sum capacity_bytes_def demand_bytes_B_def
        witness_share_B_def floor_share)
qed

section \<open>Allocation of a slot\<close>

text \<open>
  Claim C7.  Each allocation of a slot has one entry per core, no negative entry, and sums
  to the number of units distributed: the workloads and, separately, the witnesses in
  variant A, the chunks in variant B.  Distributing nothing gives zero everywhere.
\<close>

theorem allocation_sums_to_total:
  "(slot_body_A cfg scenario epoch_mode slot g = Inr (l, g') \<and> 0 < C cfg \<longrightarrow>
      length (workloads_per_core l) = C cfg \<and>
      (\<forall>i<C cfg. 0 \<le> workloads_per_core l ! i) \<and>
      sum_list (workloads_per_core l) = workloads l \<and>
      length (witnesses_per_core l) = C cfg \<and>
      (\<forall>i<C cfg. 0 \<le> witnesses_per_core l ! i) \<and>
      sum_list (witnesses_per_core l) = witnesses l) \<and>
   (slot_body_B cfgb scenario gb = Inr (lb, gb') \<and> 0 < C cfgb \<longrightarrow>
      length (chunks_per_core lb) = C cfgb \<and>
      (\<forall>i<C cfgb. 0 \<le> chunks_per_core lb ! i) \<and>
      sum_list (chunks_per_core lb) = total_chunks lb \<and>
      total_chunks lb = num_workloads lb * (work_package_size cfgb div CHUNK_SIZE cfgb)) \<and>
   multinomial 0 c g0 = Inr (replicate c 0, g0)"
proof (intro conjI impI)
  assume a: "slot_body_A cfg scenario epoch_mode slot g = Inr (l, g') \<and> 0 < C cfg"
  then obtain g1 g2 where
    m1: "multinomial (workloads l) (C cfg) g1 = Inr (workloads_per_core l, g2)" and
    m2: "multinomial (witnesses l) (C cfg) g2 = Inr (witnesses_per_core l, g')"
    using slot_body_A_facts by blast
  from a have c: "0 < C cfg" by simp
  show "length (workloads_per_core l) = C cfg" using m1 by (rule multinomial_length)
  show "\<forall>i<C cfg. 0 \<le> workloads_per_core l ! i" using multinomial_nonneg [OF m1] by blast
  show "sum_list (workloads_per_core l) = workloads l" using m1 c by (rule multinomial_sum)
  show "length (witnesses_per_core l) = C cfg" using m2 by (rule multinomial_length)
  show "\<forall>i<C cfg. 0 \<le> witnesses_per_core l ! i" using multinomial_nonneg [OF m2] by blast
  show "sum_list (witnesses_per_core l) = witnesses l" using m2 c by (rule multinomial_sum)
next
  assume b: "slot_body_B cfgb scenario gb = Inr (lb, gb') \<and> 0 < C cfgb"
  then obtain g1 where
    m: "multinomial (total_chunks lb) (C cfgb) g1 = Inr (chunks_per_core lb, gb')" and
    tc: "total_chunks lb = num_workloads lb * (work_package_size cfgb div CHUNK_SIZE cfgb)"
    using slot_body_B_facts by blast
  from b have c: "0 < C cfgb" by simp
  show "length (chunks_per_core lb) = C cfgb" using m by (rule multinomial_length)
  show "\<forall>i<C cfgb. 0 \<le> chunks_per_core lb ! i" using multinomial_nonneg [OF m] by blast
  show "sum_list (chunks_per_core lb) = total_chunks lb" using m c by (rule multinomial_sum)
  show "total_chunks lb = num_workloads lb * (work_package_size cfgb div CHUNK_SIZE cfgb)"
    by (rule tc)
next
  show "multinomial 0 c g0 = Inr (replicate c 0, g0)"
    by (simp add: multinomial_def)
qed

text \<open>Two cores, every unit landing on core 0.\<close>

lemma two_core_slot_A:
  "slot_body_A two_core_A ''state-heavy'' False 0 rng_zero =
     Inr (\<lparr>workloads = 3, witnesses = 1000, workloads_per_core = [3, 0],
           witnesses_per_core = [1000, 0], slot_contention_count = 1,
           total_processed_data_in_slot = 12582912,
           effective_tps_A = 268435456 / 13794305, cost = 39 / 200\<rparr>, rng_zero)"
  by (simp add: eval_defs numeral_2_eq_2)

lemma two_core_slot_B:
  "slot_body_B two_core_B ''state-heavy'' rng_zero =
     Inr (\<lparr>num_workloads = 15, total_chunks = 195, chunks_per_core = [195, 0],
           slot_contended = True, processed_bytes = 57660784,
           effective_tps_B = 3690290176 / 41382915, slot_cost = 39 / 40\<rparr>, rng_zero)"
  by (simp add: eval_defs numeral_2_eq_2)

theorem allocation_sums_to_total_witness:
  "slot_body_A two_core_A ''state-heavy'' False 0 rng_zero =
     Inr (\<lparr>workloads = 3, witnesses = 1000, workloads_per_core = [3, 0],
           witnesses_per_core = [1000, 0], slot_contention_count = 1,
           total_processed_data_in_slot = 12582912,
           effective_tps_A = 268435456 / 13794305, cost = 39 / 200\<rparr>, rng_zero) \<and>
   0 < C two_core_A \<and>
   length [3, 0 :: int] = C two_core_A \<and>
   sum_list [3, 0 :: int] = 3 \<and> sum_list [1000, 0 :: int] = 1000 \<and>
   slot_body_B two_core_B ''state-heavy'' rng_zero =
     Inr (\<lparr>num_workloads = 15, total_chunks = 195, chunks_per_core = [195, 0],
           slot_contended = True, processed_bytes = 57660784,
           effective_tps_B = 3690290176 / 41382915, slot_cost = 39 / 40\<rparr>, rng_zero) \<and>
   0 < C two_core_B \<and>
   sum_list [195, 0 :: int] = 195 \<and>
   (195 :: int) = 15 * (work_package_size two_core_B
                          div CHUNK_SIZE two_core_B)"
proof -
  let ?la = "\<lparr>workloads = 3, witnesses = 1000, workloads_per_core = [3, 0],
           witnesses_per_core = [1000, 0], slot_contention_count = 1,
           total_processed_data_in_slot = 12582912,
           effective_tps_A = 268435456 / 13794305, cost = 39 / 200\<rparr>"
  let ?lb = "\<lparr>num_workloads = 15, total_chunks = 195, chunks_per_core = [195, 0],
           slot_contended = True, processed_bytes = 57660784,
           effective_tps_B = 3690290176 / 41382915, slot_cost = 39 / 40\<rparr>"
  note t = allocation_sums_to_total
    [of two_core_A "''state-heavy''" False 0 rng_zero ?la rng_zero
        two_core_B rng_zero ?lb rng_zero]
  have ca: "0 < C two_core_A" and cb: "0 < C two_core_B"
    by simp_all
  have sel: "workloads_per_core ?la = [3, 0]" "witnesses_per_core ?la = [1000, 0]"
     "workloads ?la = 3" "witnesses ?la = 1000" "chunks_per_core ?lb = [195, 0]"
     "total_chunks ?lb = 195" "num_workloads ?lb = 15"
    by simp_all
  from t two_core_slot_A two_core_slot_B ca cb show ?thesis
    unfolding sel by blast
qed

section \<open>The slot loop\<close>

lemma randint_bounds:
  assumes "randint a b g = (v, g')" "a \<le> b"
  shows "a \<le> v \<and> v \<le> b"
  using randint_range [OF assms(2), of g] assms(1) by simp

lemma generate_workload_A_range:
  assumes "generate_workload_A scenario g = Inr (wl, wit, g')"
  shows "known_scenario scenario \<and> 1 \<le> wl \<and> wl \<le> 6 \<and> 100 \<le> wit \<and> wit \<le> 3000"
proof -
  have r: "\<And>a b h v h'. randint a b h = (v, h') \<Longrightarrow> a \<le> b \<Longrightarrow> a \<le> v \<and> v \<le> b"
    by (rule randint_bounds)
  show ?thesis
    using assms unfolding generate_workload_A_def known_scenario_def Let_def
    by (auto split: if_splits prod.splits dest!: r)
qed

lemma generate_workload_A_known:
  assumes "known_scenario scenario"
  shows "\<exists>wl wit g'. generate_workload_A scenario g = Inr (wl, wit, g')"
  using assms unfolding generate_workload_A_def known_scenario_def Let_def
  by (auto split: if_splits prod.splits)

lemma generate_workload_A_unknown:
  "\<not> known_scenario scenario \<Longrightarrow>
     generate_workload_A scenario g = Inl (ValueError ''Unknown scenario.'')"
  by (simp add: generate_workload_A_def known_scenario_def)

lemma workloads_for_slot_range:
  assumes "workloads_for_slot scenario g = (nw, g')"
  shows "5 \<le> nw \<and> nw \<le> 30"
proof -
  have r: "\<And>a b h v h'. randint a b h = (v, h') \<Longrightarrow> a \<le> b \<Longrightarrow> a \<le> v \<and> v \<le> b"
    by (rule randint_bounds)
  show ?thesis
    using assms unfolding workloads_for_slot_def
    by (auto split: if_splits dest!: r)
qed

lemma slot_body_A_known:
  assumes "known_scenario scenario"
  shows "\<exists>l g'. slot_body_A cfg scenario epoch_mode slot g = Inr (l, g')"
proof -
  obtain wl wit g1 where
    gw: "generate_workload_A scenario (epoch_reseed epoch_mode slot g) = Inr (wl, wit, g1)"
    using generate_workload_A_known [OF assms] by blast
  then have "0 \<le> wl" "0 \<le> wit" using generate_workload_A_range [OF gw] by simp_all
  then obtain wpc g2 witpc g3 where
    "multinomial wl (C cfg) g1 = Inr (wpc, g2)" "multinomial wit (C cfg) g2 = Inr (witpc, g3)"
    using multinomial_returns by meson
  then show ?thesis
    using gw by (simp add: slot_body_A_def Let_def split_def)
qed

lemma slot_body_A_unknown:
  "\<not> known_scenario scenario \<Longrightarrow>
     slot_body_A cfg scenario epoch_mode slot g = Inl (ValueError ''Unknown scenario.'')"
  by (simp add: slot_body_A_def Let_def generate_workload_A_unknown)

lemma slot_A_facts:
  assumes "slot_A cfg scenario epoch_mode slot (s, g) = Inr (s', g')"
  shows "\<exists>l. slot_body_A cfg scenario epoch_mode slot g = Inr (l, g') \<and>
           contention_history s' = contention_history s @ [slot_contention_count l > 0] \<and>
           costs s' = costs s @ [cost l] \<and>
           tps_effective s' = tps_effective s @ [effective_tps_A l] \<and>
           tps_finalized s' = tps_finalized s @
             [if slot \<ge> finality_delay_slots cfg
              then tps_effective s' ! (slot - finality_delay_slots cfg) else 0]"
  using assms unfolding slot_A_def Let_def
  by (auto split: sum.splits prod.splits)

lemma slot_B_facts:
  assumes "slot_B cfg scenario slot_idx (s, g) = Inr (s', g')"
  shows "\<exists>l. slot_body_B cfg scenario g = Inr (l, g') \<and>
           contention_flags s' = contention_flags s @ [slot_contended l] \<and>
           cost_series s' = cost_series s @ [slot_cost l] \<and>
           effective_tps_series s' = effective_tps_series s @ [effective_tps_B l] \<and>
           finalized_tps_series s' = finalized_tps_series s @
             [if slot_idx \<ge> finality_delay_slots cfg
              then effective_tps_series s' ! (slot_idx - finality_delay_slots cfg) else 0]"
  using assms unfolding slot_B_def Let_def
  by (auto split: sum.splits prod.splits)

lemma slots_A_invariant:
  assumes "slots_A cfg scenario epoch_mode [k..<n] st = Inr st'" and "k \<le> n"
    and "Inv k (fst st)"
    and step: "\<And>j s g s' g'. k \<le> j \<Longrightarrow> j < n \<Longrightarrow> Inv j s \<Longrightarrow>
       slot_A cfg scenario epoch_mode j (s, g) = Inr (s', g') \<Longrightarrow> Inv (Suc j) s'"
  shows "Inv n (fst st')"
  using assms(1-3) step
proof (induction "n - k" arbitrary: k st)
  case 0
  then show ?case by simp
next
  case (Suc d)
  then have kn: "k < n" by simp
  then have u: "[k..<n] = k # [Suc k..<n]" by (rule upt_conv_Cons)
  obtain s g where st: "st = (s, g)" by (cases st)
  from Suc.prems(1) obtain st1 where
    s1: "slot_A cfg scenario epoch_mode k st = Inr st1" and
    r: "slots_A cfg scenario epoch_mode [Suc k..<n] st1 = Inr st'"
    unfolding u by (auto split: sum.splits)
  obtain s1' g1' where st1: "st1 = (s1', g1')" by (cases st1)
  have i1: "Inv (Suc k) (fst st1)"
    using Suc.prems(4) [of k s g s1' g1'] kn Suc.prems(3) s1 st st1 by simp
  have "d = n - Suc k" using Suc.hyps(2) by simp
  then show ?case
    using Suc.hyps(1) [of "Suc k" st1] r kn i1 Suc.prems(4) by simp
qed

lemma slots_B_invariant:
  assumes "slots_B cfg scenario [k..<n] st = Inr st'" and "k \<le> n"
    and "Inv k (fst st)"
    and step: "\<And>j s g s' g'. k \<le> j \<Longrightarrow> j < n \<Longrightarrow> Inv j s \<Longrightarrow>
       slot_B cfg scenario j (s, g) = Inr (s', g') \<Longrightarrow> Inv (Suc j) s'"
  shows "Inv n (fst st')"
  using assms(1-3) step
proof (induction "n - k" arbitrary: k st)
  case 0
  then show ?case by simp
next
  case (Suc d)
  then have kn: "k < n" by simp
  then have u: "[k..<n] = k # [Suc k..<n]" by (rule upt_conv_Cons)
  obtain s g where st: "st = (s, g)" by (cases st)
  from Suc.prems(1) obtain st1 where
    s1: "slot_B cfg scenario k st = Inr st1" and
    r: "slots_B cfg scenario [Suc k..<n] st1 = Inr st'"
    unfolding u by (auto split: sum.splits)
  obtain s1' g1' where st1: "st1 = (s1', g1')" by (cases st1)
  have i1: "Inv (Suc k) (fst st1)"
    using Suc.prems(4) [of k s g s1' g1'] kn Suc.prems(3) s1 st st1 by simp
  have "d = n - Suc k" using Suc.hyps(2) by simp
  then show ?case
    using Suc.hyps(1) [of "Suc k" st1] r kn i1 Suc.prems(4) by simp
qed

lemma shifted_Nil: "shifted d [] []"
  by (simp add: shifted_def)

lemma shifted_snoc:
  assumes "shifted d es fs"
  shows "shifted d (es @ [e]) (fs @ [if d \<le> length es then (es @ [e]) ! (length es - d) else 0])"
proof -
  from assms have len: "length fs = length es"
    and sh: "\<And>i. i < length es \<Longrightarrow> fs ! i = (if d \<le> i then es ! (i - d) else 0)"
    by (simp_all add: shifted_def)
  show ?thesis
    unfolding shifted_def
  proof (intro conjI allI impI)
    show "length (fs @ [if d \<le> length es then (es @ [e]) ! (length es - d) else 0])
        = length (es @ [e])" using len by simp
  next
    fix i assume "i < length (es @ [e])"
    then consider "i < length es" | "i = length es" by fastforce
    then show "(fs @ [if d \<le> length es then (es @ [e]) ! (length es - d) else 0]) ! i =
         (if d \<le> i then (es @ [e]) ! (i - d) else 0)"
    proof cases
      case 1
      then have "i - d < length es" by simp
      then show ?thesis using 1 len sh [OF 1] by (simp add: nth_append)
    next
      case 2
      then show ?thesis using len by (simp add: nth_append)
    qed
  qed
qed

lemma slots_A_series:
  assumes "slots_A cfg scenario epoch_mode [0..<n]
      (\<lparr> contention_history = [], costs = [], tps_effective = [], tps_finalized = [] \<rparr>, g)
      = Inr (s, g')"
  shows "length (tps_effective s) = n \<and> length (contention_history s) = n \<and>
         length (costs s) = n \<and>
         shifted (finality_delay_slots cfg) (tps_effective s) (tps_finalized s)"
proof -
  let ?Inv = "\<lambda>j s. length (tps_effective s) = j \<and> length (contention_history s) = j \<and>
         length (costs s) = j \<and>
         shifted (finality_delay_slots cfg) (tps_effective s) (tps_finalized s)"
  have "?Inv n (fst (s, g'))"
  proof (rule slots_A_invariant [OF assms, where Inv = ?Inv])
    show "0 \<le> n" by simp
    show "?Inv 0 (fst (\<lparr> contention_history = [], costs = [], tps_effective = [],
        tps_finalized = [] \<rparr>, g))"
      by (simp add: shifted_Nil)
  next
    fix j s0 g0 s1 g1
    assume inv: "?Inv j s0" and st: "slot_A cfg scenario epoch_mode j (s0, g0) = Inr (s1, g1)"
    from slot_A_facts [OF st] obtain l where
      f: "slot_body_A cfg scenario epoch_mode j g0 = Inr (l, g1) \<and>
           contention_history s1 = contention_history s0 @ [slot_contention_count l > 0] \<and>
           costs s1 = costs s0 @ [cost l] \<and>
           tps_effective s1 = tps_effective s0 @ [effective_tps_A l] \<and>
           tps_finalized s1 = tps_finalized s0 @
             [if j \<ge> finality_delay_slots cfg
              then tps_effective s1 ! (j - finality_delay_slots cfg) else 0]" ..
    then have
      ch: "contention_history s1 = contention_history s0 @ [slot_contention_count l > 0]" and
      co: "costs s1 = costs s0 @ [cost l]" and
      te: "tps_effective s1 = tps_effective s0 @ [effective_tps_A l]" and
      tf: "tps_finalized s1 = tps_finalized s0 @
             [if j \<ge> finality_delay_slots cfg
              then tps_effective s1 ! (j - finality_delay_slots cfg) else 0]"
      by simp_all
    from inv have len: "length (tps_effective s0) = j" by simp
    have "shifted (finality_delay_slots cfg) (tps_effective s1) (tps_finalized s1)"
      using shifted_snoc [of "finality_delay_slots cfg" "tps_effective s0" "tps_finalized s0"
          "effective_tps_A l"] inv
      unfolding tf te len by simp
    then show "?Inv (Suc j) s1" using inv ch co te by simp
  qed
  then show ?thesis by simp
qed

lemma slots_B_series:
  assumes "slots_B cfg scenario [0..<n]
      (\<lparr> contention_flags = [], effective_tps_series = [],
         finalized_tps_series = [], cost_series = [] \<rparr>, g)
      = Inr (s, g')"
  shows "length (effective_tps_series s) = n \<and> length (contention_flags s) = n \<and>
         length (cost_series s) = n \<and>
         shifted (finality_delay_slots cfg) (effective_tps_series s) (finalized_tps_series s)"
proof -
  let ?Inv = "\<lambda>j s. length (effective_tps_series s) = j \<and> length (contention_flags s) = j \<and>
         length (cost_series s) = j \<and>
         shifted (finality_delay_slots cfg) (effective_tps_series s) (finalized_tps_series s)"
  have "?Inv n (fst (s, g'))"
  proof (rule slots_B_invariant [OF assms, where Inv = ?Inv])
    show "0 \<le> n" by simp
    show "?Inv 0 (fst (\<lparr> contention_flags = [], effective_tps_series = [],
         finalized_tps_series = [], cost_series = [] \<rparr>, g))"
      by (simp add: shifted_Nil)
  next
    fix j s0 g0 s1 g1
    assume inv: "?Inv j s0" and st: "slot_B cfg scenario j (s0, g0) = Inr (s1, g1)"
    from slot_B_facts [OF st] obtain l where
      f: "slot_body_B cfg scenario g0 = Inr (l, g1) \<and>
           contention_flags s1 = contention_flags s0 @ [slot_contended l] \<and>
           cost_series s1 = cost_series s0 @ [slot_cost l] \<and>
           effective_tps_series s1 = effective_tps_series s0 @ [effective_tps_B l] \<and>
           finalized_tps_series s1 = finalized_tps_series s0 @
             [if j \<ge> finality_delay_slots cfg
              then effective_tps_series s1 ! (j - finality_delay_slots cfg) else 0]" ..
    then have
      ch: "contention_flags s1 = contention_flags s0 @ [slot_contended l]" and
      co: "cost_series s1 = cost_series s0 @ [slot_cost l]" and
      te: "effective_tps_series s1 = effective_tps_series s0 @ [effective_tps_B l]" and
      tf: "finalized_tps_series s1 = finalized_tps_series s0 @
             [if j \<ge> finality_delay_slots cfg
              then effective_tps_series s1 ! (j - finality_delay_slots cfg) else 0]"
      by simp_all
    from inv have len: "length (effective_tps_series s0) = j" by simp
    have "shifted (finality_delay_slots cfg) (effective_tps_series s1) (finalized_tps_series s1)"
      using shifted_snoc [of "finality_delay_slots cfg" "effective_tps_series s0"
          "finalized_tps_series s0" "effective_tps_B l"] inv
      unfolding tf te len by simp
    then show "?Inv (Suc j) s1" using inv ch co te by simp
  qed
  then show ?thesis by simp
qed

lemma run_simulation_A_facts:
  assumes "run_simulation_A cfg num_slots0 scenario epoch_mode g fs = Inr (r, g', fs')"
  shows "\<exists>num_slots s.
     num_slots = (if epoch_mode then 600 else num_slots0) \<and> 0 < num_slots \<and>
     slots_A cfg scenario epoch_mode [0..<nat num_slots]
       (\<lparr> contention_history = [], costs = [], tps_effective = [], tps_finalized = [] \<rparr>, g)
       = Inr (s, g') \<and>
     r = \<lparr> scenario_A = scenario,
           tps_theoretical = of_int (int (C cfg) * T cfg) / of_int (P cfg),
           avg_tps_effective = np_mean (tps_effective s),
           avg_tps_finalized = np_mean (tps_finalized s),
           avg_cost = np_mean (costs s),
           contention_rate = of_nat (length (filter id (contention_history s)))
                              / of_int num_slots * 100,
           res_tps_effective = tps_effective s,
           res_tps_finalized = tps_finalized s,
           res_contention_history = contention_history s \<rparr> \<and>
     fs' = fs(''simulation_results.csv'' \<mapsto> csv_rows_A num_slots s)"
  using assms unfolding run_simulation_A_def linspace_def Let_def
  by (auto split: sum.splits prod.splits if_splits)

lemma run_simulation_B_facts:
  assumes "run_simulation_B cfg num_slots scenario g = Inr (r, g')"
  shows "\<exists>s. num_slots \<noteq> 0 \<and>
     slots_B cfg scenario [0..<nat num_slots]
       (\<lparr> contention_flags = [], effective_tps_series = [],
          finalized_tps_series = [], cost_series = [] \<rparr>, g) = Inr (s, g') \<and>
     r = \<lparr> scenario_B = scenario,
           theoretical_tps = of_int (int (C cfg) * T cfg) / of_int (P cfg),
           avg_effective_tps = np_mean (effective_tps_series s),
           avg_finalized_tps = np_mean (finalized_tps_series s),
           contention_rate_pct =
             100 * of_nat (length (filter id (contention_flags s))) / of_int num_slots,
           avg_cost_per_slot_usd = np_mean (cost_series s),
           effective_series = effective_tps_series s,
           finalized_series = finalized_tps_series s,
           contention_series = contention_flags s,
           res_cost_series = cost_series s \<rparr>"
  using assms unfolding run_simulation_B_def Let_def
  by (auto split: sum.splits prod.splits if_splits)

lemma slot_A_known:
  assumes "known_scenario scenario"
  shows "\<exists>st'. slot_A cfg scenario epoch_mode slot st = Inr st'"
proof -
  obtain l g' where "slot_body_A cfg scenario epoch_mode slot (snd st) = Inr (l, g')"
    using slot_body_A_known [OF assms] by blast
  then show ?thesis by (simp add: slot_A_def Let_def)
qed

lemma slots_A_known:
  assumes "known_scenario scenario"
  shows "\<exists>st'. slots_A cfg scenario epoch_mode xs st = Inr st'"
proof (induction xs arbitrary: st)
  case Nil
  then show ?case by simp
next
  case (Cons x xs)
  obtain st1 where "slot_A cfg scenario epoch_mode x st = Inr st1"
    using slot_A_known [OF assms] by blast
  then show ?case using Cons.IH [of st1] by simp
qed

lemma run_simulation_A_known:
  assumes "known_scenario scenario" and "epoch_mode \<or> 0 < num_slots0"
  shows "\<exists>r g' fs'. run_simulation_A cfg num_slots0 scenario epoch_mode g fs = Inr (r, g', fs')"
proof -
  let ?n = "if epoch_mode then 600 else num_slots0"
  have pos: "0 < ?n" using assms(2) by auto
  obtain s g' where
    "slots_A cfg scenario epoch_mode [0..<nat ?n]
       (\<lparr> contention_history = [], costs = [], tps_effective = [], tps_finalized = [] \<rparr>, g)
       = Inr (s, g')"
    using slots_A_known [OF assms(1)] by (metis surj_pair)
  then show ?thesis
    using pos unfolding run_simulation_A_def linspace_def Let_def
    by (auto split: if_splits)
qed

lemma run_simulation_A_unknown:
  assumes "\<not> known_scenario scenario" and "epoch_mode \<or> 0 < num_slots0"
  shows "run_simulation_A cfg num_slots0 scenario epoch_mode g fs =
           Inl (ValueError ''Unknown scenario.'')"
proof -
  let ?n = "if epoch_mode then 600 else num_slots0"
  have pos: "0 < nat ?n" using assms(2) by auto
  then have u: "[0..<nat ?n] = 0 # [Suc 0..<nat ?n]" by (rule upt_conv_Cons)
  have "slots_A cfg scenario epoch_mode [0..<nat ?n]
       (\<lparr> contention_history = [], costs = [], tps_effective = [], tps_finalized = [] \<rparr>, g)
       = Inl (ValueError ''Unknown scenario.'')"
    unfolding u by (simp add: slot_A_def slot_body_A_unknown [OF assms(1)])
  then show ?thesis
    using pos unfolding run_simulation_A_def linspace_def Let_def
    by (auto split: if_splits)
qed

lemma slot_body_B_returns:
  assumes "0 \<le> work_package_size cfg div CHUNK_SIZE cfg"
  shows "\<exists>l g'. slot_body_B cfg scenario g = Inr (l, g')"
proof -
  obtain nw g1 where w: "workloads_for_slot scenario g = (nw, g1)" by (cases "workloads_for_slot scenario g")
  then have "0 \<le> nw" using workloads_for_slot_range [OF w] by simp
  then have "0 \<le> nw * (work_package_size cfg div CHUNK_SIZE cfg)" using assms by simp
  then obtain cpc g2 where
    "multinomial (nw * (work_package_size cfg div CHUNK_SIZE cfg)) (C cfg) g1 = Inr (cpc, g2)"
    using multinomial_returns by meson
  then show ?thesis using w by (simp add: slot_body_B_def Let_def split_def)
qed

lemma slots_B_returns:
  assumes "0 \<le> work_package_size cfg div CHUNK_SIZE cfg"
  shows "\<exists>st'. slots_B cfg scenario xs st = Inr st'"
proof (induction xs arbitrary: st)
  case Nil
  then show ?case by simp
next
  case (Cons x xs)
  obtain l g' where "slot_body_B cfg scenario (snd st) = Inr (l, g')"
    using slot_body_B_returns [OF assms] by blast
  then obtain st1 where "slot_B cfg scenario x st = Inr st1"
    by (simp add: slot_B_def Let_def)
  then show ?case using Cons.IH [of st1] by simp
qed

lemma run_simulation_B_returns:
  assumes "0 \<le> work_package_size cfg div CHUNK_SIZE cfg" and "num_slots \<noteq> 0"
  shows "\<exists>r g'. run_simulation_B cfg num_slots scenario g = Inr (r, g')"
proof -
  obtain s g' where
    "slots_B cfg scenario [0..<nat num_slots]
       (\<lparr> contention_flags = [], effective_tps_series = [],
          finalized_tps_series = [], cost_series = [] \<rparr>, g) = Inr (s, g')"
    using slots_B_returns [OF assms(1)] by (metis surj_pair)
  then show ?thesis
    using assms(2) unfolding run_simulation_B_def Let_def by simp
qed

section \<open>Finished runs\<close>

text \<open>
  Claim C2.  In a finished run the finalized TPS of slot \<open>s\<close> is the effective TPS of
  slot \<open>s - finality_delay_slots\<close> from slot \<open>finality_delay_slots\<close> on, and zero
  before; both series have one entry per slot.
\<close>

theorem finalized_tps_is_delayed_effective_tps:
  "(run_simulation_A cfg num_slots scenario epoch_mode g fs = Inr (r, g', fs') \<longrightarrow>
      length (res_tps_effective r) = nat (if epoch_mode then 600 else num_slots) \<and>
      length (res_tps_finalized r) = length (res_tps_effective r) \<and>
      (\<forall>s<length (res_tps_effective r).
         res_tps_finalized r ! s =
           (if finality_delay_slots cfg \<le> s
            then res_tps_effective r ! (s - finality_delay_slots cfg) else 0))) \<and>
   (run_simulation_B cfgb num_slots scenario gb = Inr (rb, gb') \<longrightarrow>
      length (effective_series rb) = nat num_slots \<and>
      length (finalized_series rb) = length (effective_series rb) \<and>
      (\<forall>s<length (effective_series rb).
         finalized_series rb ! s =
           (if finality_delay_slots cfgb \<le> s
            then effective_series rb ! (s - finality_delay_slots cfgb) else 0)))"
proof (intro conjI impI)
  assume "run_simulation_A cfg num_slots scenario epoch_mode g fs = Inr (r, g', fs')"
  from run_simulation_A_facts [OF this] obtain n s where
    n: "n = (if epoch_mode then 600 else num_slots)" and
    sl: "slots_A cfg scenario epoch_mode [0..<nat n]
       (\<lparr> contention_history = [], costs = [], tps_effective = [], tps_finalized = [] \<rparr>, g)
       = Inr (s, g')" and
    e: "res_tps_effective r = tps_effective s" and f: "res_tps_finalized r = tps_finalized s"
    by auto
  from slots_A_series [OF sl] have
    len: "length (tps_effective s) = nat n" and
    sh: "shifted (finality_delay_slots cfg) (tps_effective s) (tps_finalized s)" by simp_all
  show "length (res_tps_effective r) = nat (if epoch_mode then 600 else num_slots)"
    using len e n by simp
  show "length (res_tps_finalized r) = length (res_tps_effective r)"
    using sh e f by (simp add: shifted_def)
  show "\<forall>s<length (res_tps_effective r).
         res_tps_finalized r ! s =
           (if finality_delay_slots cfg \<le> s
            then res_tps_effective r ! (s - finality_delay_slots cfg) else 0)"
    using sh e f by (simp add: shifted_def)
next
  assume "run_simulation_B cfgb num_slots scenario gb = Inr (rb, gb')"
  from run_simulation_B_facts [OF this] obtain s where
    sl: "slots_B cfgb scenario [0..<nat num_slots]
       (\<lparr> contention_flags = [], effective_tps_series = [],
          finalized_tps_series = [], cost_series = [] \<rparr>, gb) = Inr (s, gb')" and
    e: "effective_series rb = effective_tps_series s" and
    f: "finalized_series rb = finalized_tps_series s"
    by auto
  from slots_B_series [OF sl] have
    len: "length (effective_tps_series s) = nat num_slots" and
    sh: "shifted (finality_delay_slots cfgb) (effective_tps_series s) (finalized_tps_series s)"
    by simp_all
  show "length (effective_series rb) = nat num_slots" using len e by simp
  show "length (finalized_series rb) = length (effective_series rb)"
    using sh e f by (simp add: shifted_def)
  show "\<forall>s<length (effective_series rb).
         finalized_series rb ! s =
           (if finality_delay_slots cfgb \<le> s
            then effective_series rb ! (s - finality_delay_slots cfgb) else 0)"
    using sh e f by (simp add: shifted_def)
qed

text \<open>Runs of three slots on one core, evaluated.\<close>

lemma single_core_slot_A_any:
  "slot_body_A single_core_A ''stateless'' False slot rng_zero =
     Inr (\<lparr>workloads = 1, witnesses = 100, workloads_per_core = [1],
           witnesses_per_core = [100], slot_contention_count = 1,
           total_processed_data_in_slot = 12582912,
           effective_tps_A = 268435456 / 13794305, cost = 13 / 200\<rparr>, rng_zero)"
  by (simp add: eval_defs)

lemma upt_3: "[0..<3] = [0, 1, 2]"
  by (simp add: numeral_3_eq_3 upt_rec)

lemma three_slots_series_A:
  "slots_A single_core_A ''stateless'' False [0, 1, 2]
     (\<lparr>contention_history = [], costs = [], tps_effective = [], tps_finalized = []\<rparr>, rng_zero) =
   Inr (\<lparr>contention_history = [True, True, True], costs = [13 / 200, 13 / 200, 13 / 200],
         tps_effective = [268435456 / 13794305, 268435456 / 13794305, 268435456 / 13794305],
         tps_finalized = [0, 0, 268435456 / 13794305]\<rparr>, rng_zero)"
  by (simp add: slot_A_def single_core_slot_A_any Let_def)

lemma three_slots_A:
  "run_simulation_A single_core_A 3 ''stateless'' False rng_zero no_files =
     Inr (\<lparr>scenario_A = ''stateless'', tps_theoretical = 64 / 3,
        avg_tps_effective = Some (268435456 / 13794305),
        avg_tps_finalized = Some (268435456 / 41382915),
        avg_cost = Some (13 / 200), contention_rate = 100,
        res_tps_effective =
          [268435456 / 13794305, 268435456 / 13794305, 268435456 / 13794305],
        res_tps_finalized = [0, 0, 268435456 / 13794305],
        res_contention_history = [True, True, True]\<rparr>,
       rng_zero,
       no_files(''simulation_results.csv'' \<mapsto>
        [[CStr ''Slot'', CStr ''Effective TPS'', CStr ''Finalized TPS'', CStr ''Contention''],
         [CInt 0, CNum (268435456 / 13794305), CNum 0, CBool True],
         [CInt 1, CNum (268435456 / 13794305), CNum 0, CBool True],
         [CInt 2, CNum (268435456 / 13794305), CNum (268435456 / 13794305), CBool True]]))"
proof -
  have l: "[0..<nat 3] = [0, 1, 2]" by (simp add: upt_3)
  show ?thesis
    unfolding run_simulation_A_def linspace_def Let_def if_False l three_slots_series_A
    by (simp add: np_mean_def csv_rows_A_def upt_3)
qed

lemma three_slots_series_B:
  "slots_B single_core_B ''stateless'' [0, 1, 2]
     (\<lparr>contention_flags = [], effective_tps_series = [],
        finalized_tps_series = [], cost_series = []\<rparr>, rng_zero) =
   Inr (\<lparr>contention_flags = [True, True, True],
         effective_tps_series = [1230001152 / 13794305, 1230001152 / 13794305, 1230001152 / 13794305],
         finalized_tps_series = [0, 0, 1230001152 / 13794305],
         cost_series = [13 / 40, 13 / 40, 13 / 40]\<rparr>, rng_zero)"
  by (simp add: slot_B_def single_core_slot_B Let_def)

lemma three_slots_B:
  "run_simulation_B single_core_B 3 ''stateless'' rng_zero =
     Inr (\<lparr>scenario_B = ''stateless'', theoretical_tps = 64 / 3,
        avg_effective_tps = Some (1230001152 / 13794305),
        avg_finalized_tps = Some (410000384 / 13794305),
        contention_rate_pct = 100, avg_cost_per_slot_usd = Some (13 / 40),
        effective_series =
          [1230001152 / 13794305, 1230001152 / 13794305, 1230001152 / 13794305],
        finalized_series = [0, 0, 1230001152 / 13794305],
        contention_series = [True, True, True],
        res_cost_series = [13 / 40, 13 / 40, 13 / 40]\<rparr>, rng_zero)"
proof -
  have l: "[0..<nat 3] = [0, 1, 2]" by (simp add: upt_3)
  show ?thesis
    unfolding run_simulation_B_def Let_def l three_slots_series_B
    by (simp add: np_mean_def)
qed

theorem finalized_tps_is_delayed_effective_tps_witness:
  "(\<exists>r g' fs'.
      run_simulation_A single_core_A 3 ''stateless'' False rng_zero no_files = Inr (r, g', fs') \<and>
      length (res_tps_finalized r) = 3 \<and>
      res_tps_finalized r ! 0 = 0 \<and> res_tps_finalized r ! 1 = 0 \<and>
      res_tps_finalized r ! 2 = res_tps_effective r ! 0 \<and>
      res_tps_effective r ! 0 = 268435456 / 13794305) \<and>
   (\<exists>rb gb'.
      run_simulation_B single_core_B 3 ''stateless'' rng_zero = Inr (rb, gb') \<and>
      length (finalized_series rb) = 3 \<and>
      finalized_series rb ! 0 = 0 \<and> finalized_series rb ! 1 = 0 \<and>
      finalized_series rb ! 2 = effective_series rb ! 0 \<and>
      effective_series rb ! 0 = 1230001152 / 13794305)"
proof -
  obtain r g' fs' where
    a: "run_simulation_A single_core_A 3 ''stateless'' False rng_zero no_files = Inr (r, g', fs')"
    and ea: "res_tps_effective r ! 0 = 268435456 / 13794305"
    using three_slots_A by simp
  obtain rb gb' where
    b: "run_simulation_B single_core_B 3 ''stateless'' rng_zero = Inr (rb, gb')"
    and eb: "effective_series rb ! 0 = 1230001152 / 13794305"
    using three_slots_B by simp
  note t = finalized_tps_is_delayed_effective_tps
    [of single_core_A 3 "''stateless''" False rng_zero no_files r g' fs'
        single_core_B rng_zero rb gb']
  from t a have la: "length (res_tps_effective r) = 3"
    and fa: "length (res_tps_finalized r) = length (res_tps_effective r)"
    and sa: "\<forall>s<length (res_tps_effective r).
         res_tps_finalized r ! s =
           (if finality_delay_slots single_core_A \<le> s
            then res_tps_effective r ! (s - finality_delay_slots single_core_A) else 0)"
    by simp_all
  from t b have lb: "length (effective_series rb) = 3"
    and fb: "length (finalized_series rb) = length (effective_series rb)"
    and sb: "\<forall>s<length (effective_series rb).
         finalized_series rb ! s =
           (if finality_delay_slots single_core_B \<le> s
            then effective_series rb ! (s - finality_delay_slots single_core_B) else 0)"
    by simp_all
  have "res_tps_finalized r ! 0 = 0" "res_tps_finalized r ! 1 = 0"
    "res_tps_finalized r ! 2 = res_tps_effective r ! 0"
    using sa la by simp_all
  moreover have "finalized_series rb ! 0 = 0" "finalized_series rb ! 1 = 0"
    "finalized_series rb ! 2 = effective_series rb ! 0"
    using sb lb by simp_all
  ultimately show ?thesis using a b la fa lb fb ea eb by auto
qed

lemma np_mean_le:
  assumes "\<forall>x\<in>set xs. x \<le> b" and "np_mean xs = Some a"
  shows "a \<le> b"
proof -
  from assms(2) have ne: "xs \<noteq> []" and a: "a = sum_list xs / of_nat (length xs)"
    by (auto simp: np_mean_def split: if_splits)
  have "sum_list xs \<le> of_nat (length xs) * b"
    using assms(1) by (induction xs) (auto simp: algebra_simps)
  moreover have "0 < (of_nat (length xs) :: rat)" using ne by simp
  ultimately show ?thesis unfolding a by (simp add: pos_divide_le_eq mult.commute)
qed

lemma np_mean_nonempty: "xs \<noteq> [] \<Longrightarrow> \<exists>a. np_mean xs = Some a"
  by (simp add: np_mean_def)

lemma sum_nth_sum_list: "(\<Sum>i<length xs. xs ! i) = sum_list (xs :: int list)"
  by (simp add: sum_list_sum_nth atLeast0LessThan)

lemma effective_A_bound:
  assumes "slot_body_A settings_A scenario epoch_mode slot g = Inr (l, g')"
  shows "effective_tps_A l \<le> 21824 / 3"
proof -
  have "total_processed_data_in_slot l =
      (\<Sum>i<C settings_A. min (demand_bytes_A settings_A l i) (capacity_bytes settings_A))"
    by (rule processed_A_sum [OF assms])
  also have "\<dots> \<le> (\<Sum>i<C settings_A. capacity_bytes settings_A)"
    by (rule sum_mono) simp
  also have "\<dots> = 341 * 12582912"
    by (simp add: settings_A_def capacity_bytes_def)
  finally have t: "total_processed_data_in_slot l \<le> 4290772992" by simp
  have e: "effective_tps_A l =
      (of_int (total_processed_data_in_slot l) / 13794305) * 128 / 6"
    using slot_body_A_facts [OF assms] by (auto simp: settings_A_def)
  have "(of_int (total_processed_data_in_slot l) :: rat) \<le> 4290772992"
    using t by (metis of_int_le_iff of_int_numeral)
  then show ?thesis unfolding e by simp
qed

text \<open>
  With the constants of the file a slot has at most 30 workloads on 341 cores, so the
  witness share of variant B is zero in every slot.
\<close>

lemma witness_share_B_zero_at_file_settings:
  assumes "slot_body_B settings_B scenario g = Inr (l, g')"
  shows "witness_share_B settings_B l = 0"
proof -
  from slot_body_B_facts [OF assms] obtain g1 where
    w: "workloads_for_slot scenario g = (num_workloads l, g1)" by auto
  have nw: "5 \<le> num_workloads l" "num_workloads l \<le> 30"
    using workloads_for_slot_range [OF w] by simp_all
  have "witness_share_B settings_B l =
      (num_workloads l div int (C settings_B)) * witness_size settings_B"
    by (simp only: witness_share_B_def floor_share)
  moreover have "num_workloads l div int (C settings_B) = 0"
    using nw by (simp add: settings_B_def)
  ultimately show ?thesis by simp
qed

lemma effective_B_bound:
  assumes "slot_body_B settings_B scenario g = Inr (l, g')"
  shows "effective_tps_B l \<le> 21824 / 3"
proof -
  from slot_body_B_facts [OF assms] obtain g1 where
    w: "workloads_for_slot scenario g = (num_workloads l, g1)" and
    tc: "total_chunks l = num_workloads l * (work_package_size settings_B div CHUNK_SIZE settings_B)" and
    m: "multinomial (total_chunks l) (C settings_B) g1 = Inr (chunks_per_core l, g')" and
    e0: "effective_tps_B l =
             (of_int (processed_bytes l) / of_int (work_package_size settings_B))
               * of_int (T settings_B) / of_int (P settings_B)"
    by auto
  have nw: "5 \<le> num_workloads l" "num_workloads l \<le> 30"
    using workloads_for_slot_range [OF w] by simp_all
  have len: "length (chunks_per_core l) = 341"
    using multinomial_length [OF m] by (simp add: settings_B_def)
  have sm: "sum_list (chunks_per_core l) = total_chunks l"
    using multinomial_sum [OF m] by (simp add: settings_B_def)
  have tc13: "total_chunks l = num_workloads l * 13"
    using tc by (simp add: settings_B_def)
  have share: "witness_share_B settings_B l = 0"
    by (rule witness_share_B_zero_at_file_settings [OF assms])
  have "processed_bytes l =
      (\<Sum>i<C settings_B. min (demand_bytes_B settings_B l i) (capacity_bytes settings_B))"
    by (rule processed_B_sum [OF assms])
  also have "\<dots> \<le> (\<Sum>i<C settings_B. demand_bytes_B settings_B l i)"
    by (rule sum_mono) simp
  also have "\<dots> = (\<Sum>i<length (chunks_per_core l). chunks_per_core l ! i * 1048576)"
    using len share by (simp add: demand_bytes_B_def settings_B_def)
  also have "\<dots> = (\<Sum>i<length (chunks_per_core l). chunks_per_core l ! i) * 1048576"
    by (simp add: sum_distrib_right)
  also have "\<dots> = total_chunks l * 1048576"
    by (simp only: sum_nth_sum_list sm)
  also have "\<dots> \<le> 408944640" using nw tc13 by simp
  finally have t: "processed_bytes l \<le> 408944640" .
  have e: "effective_tps_B l = (of_int (processed_bytes l) / 13794305) * 128 / 6"
    using e0 by (simp add: settings_B_def)
  have "(of_int (processed_bytes l) :: rat) \<le> 408944640"
    using t by (metis of_int_le_iff of_int_numeral)
  then show ?thesis unfolding e by simp
qed

lemma slots_A_bound:
  assumes "slots_A settings_A scenario epoch_mode [0..<n]
      (\<lparr> contention_history = [], costs = [], tps_effective = [], tps_finalized = [] \<rparr>, g)
      = Inr (s, g')"
  shows "\<forall>x\<in>set (tps_effective s). x \<le> 21824 / 3"
proof -
  let ?Inv = "\<lambda>(j::nat) s. \<forall>x\<in>set (tps_effective s). x \<le> 21824 / 3"
  have "?Inv n (fst (s, g'))"
  proof (rule slots_A_invariant [OF assms, where Inv = ?Inv])
    show "0 \<le> n" by simp
    show "?Inv 0 (fst (\<lparr> contention_history = [], costs = [], tps_effective = [],
        tps_finalized = [] \<rparr>, g))"
      by simp
  next
    fix j s0 g0 s1 g1
    assume inv: "?Inv j s0"
      and st: "slot_A settings_A scenario epoch_mode j (s0, g0) = Inr (s1, g1)"
    from slot_A_facts [OF st] obtain l where
      b: "slot_body_A settings_A scenario epoch_mode j g0 = Inr (l, g1)" and
      te: "tps_effective s1 = tps_effective s0 @ [effective_tps_A l]"
      by auto
    show "?Inv (Suc j) s1"
      using inv effective_A_bound [OF b] unfolding te by simp
  qed
  then show ?thesis by simp
qed

lemma slots_B_bound:
  assumes "slots_B settings_B scenario [0..<n]
      (\<lparr> contention_flags = [], effective_tps_series = [],
         finalized_tps_series = [], cost_series = [] \<rparr>, g)
      = Inr (s, g')"
  shows "\<forall>x\<in>set (effective_tps_series s). x \<le> 21824 / 3"
proof -
  let ?Inv = "\<lambda>(j::nat) s. \<forall>x\<in>set (effective_tps_series s). x \<le> 21824 / 3"
  have "?Inv n (fst (s, g'))"
  proof (rule slots_B_invariant [OF assms, where Inv = ?Inv])
    show "0 \<le> n" by simp
    show "?Inv 0 (fst (\<lparr> contention_flags = [], effective_tps_series = [],
         finalized_tps_series = [], cost_series = [] \<rparr>, g))"
      by simp
  next
    fix j s0 g0 s1 g1
    assume inv: "?Inv j s0"
      and st: "slot_B settings_B scenario j (s0, g0) = Inr (s1, g1)"
    from slot_B_facts [OF st] obtain l where
      b: "slot_body_B settings_B scenario g0 = Inr (l, g1)" and
      te: "effective_tps_series s1 = effective_tps_series s0 @ [effective_tps_B l]"
      by auto
    show "?Inv (Suc j) s1"
      using inv effective_B_bound [OF b] unfolding te by simp
  qed
  then show ?thesis by simp
qed

text \<open>
  Claim C6, amended.  The theoretical TPS of a run is \<open>C * T / P\<close>, whatever was drawn.
  With the constants of either file (341 cores) it is \<open>21824 / 3\<close>, and every run that
  returns with an average has an average effective TPS of at most that: a run of variant A
  always has one, a run of variant B has one when the slot count is positive.
\<close>

theorem average_effective_tps_below_theoretical:
  "(run_simulation_A settings_A num_slots scenario epoch_mode g fs = Inr (r, g', fs') \<longrightarrow>
      tps_theoretical r =
        of_int (int (C settings_A) * T settings_A) / of_int (P settings_A) \<and>
      tps_theoretical r = 21824 / 3 \<and>
      (\<exists>a. avg_tps_effective r = Some a \<and> a \<le> tps_theoretical r)) \<and>
   (run_simulation_B settings_B num_slots scenario gb = Inr (rb, gb') \<longrightarrow>
      theoretical_tps rb =
        of_int (int (C settings_B) * T settings_B) / of_int (P settings_B) \<and>
      theoretical_tps rb = 21824 / 3 \<and>
      (\<forall>a. avg_effective_tps rb = Some a \<longrightarrow> a \<le> theoretical_tps rb) \<and>
      (0 < num_slots \<longrightarrow> (\<exists>a. avg_effective_tps rb = Some a \<and> a \<le> theoretical_tps rb)))"
proof (intro conjI impI allI)
  assume "run_simulation_A settings_A num_slots scenario epoch_mode g fs = Inr (r, g', fs')"
  from run_simulation_A_facts [OF this] obtain n s where
    pos: "0 < n" and
    sl: "slots_A settings_A scenario epoch_mode [0..<nat n]
       (\<lparr> contention_history = [], costs = [], tps_effective = [], tps_finalized = [] \<rparr>, g)
       = Inr (s, g')" and
    th: "tps_theoretical r =
        of_int (int (C settings_A) * T settings_A) / of_int (P settings_A)" and
    av: "avg_tps_effective r = np_mean (tps_effective s)"
    by auto
  show "tps_theoretical r =
        of_int (int (C settings_A) * T settings_A) / of_int (P settings_A)" by (rule th)
  show v: "tps_theoretical r = 21824 / 3" unfolding th by (simp add: settings_A_def)
  have "length (tps_effective s) = nat n" using slots_A_series [OF sl] by simp
  then have "tps_effective s \<noteq> []" using pos by auto
  then obtain a where a: "np_mean (tps_effective s) = Some a"
    using np_mean_nonempty by blast
  have "a \<le> 21824 / 3" using np_mean_le [OF slots_A_bound [OF sl] a] .
  then show "\<exists>a. avg_tps_effective r = Some a \<and> a \<le> tps_theoretical r"
    using a av v by simp
next
  assume run: "run_simulation_B settings_B num_slots scenario gb = Inr (rb, gb')"
  from run_simulation_B_facts [OF run] obtain s where
    sl: "slots_B settings_B scenario [0..<nat num_slots]
       (\<lparr> contention_flags = [], effective_tps_series = [],
          finalized_tps_series = [], cost_series = [] \<rparr>, gb) = Inr (s, gb')" and
    th: "theoretical_tps rb =
        of_int (int (C settings_B) * T settings_B) / of_int (P settings_B)" and
    av: "avg_effective_tps rb = np_mean (effective_tps_series s)"
    by auto
  show "theoretical_tps rb =
        of_int (int (C settings_B) * T settings_B) / of_int (P settings_B)" by (rule th)
  show v: "theoretical_tps rb = 21824 / 3" unfolding th by (simp add: settings_B_def)
  {
    fix a assume "avg_effective_tps rb = Some a"
    then have "np_mean (effective_tps_series s) = Some a" using av by simp
    then have "a \<le> 21824 / 3" using np_mean_le [OF slots_B_bound [OF sl]] by blast
    then show "a \<le> theoretical_tps rb" using v by simp
  }
  note le = this
  assume pos: "0 < num_slots"
  have "length (effective_tps_series s) = nat num_slots" using slots_B_series [OF sl] by simp
  then have "effective_tps_series s \<noteq> []" using pos by auto
  then obtain a where a: "np_mean (effective_tps_series s) = Some a"
    using np_mean_nonempty by blast
  then have "avg_effective_tps rb = Some a" using av by simp
  then show "\<exists>a. avg_effective_tps rb = Some a \<and> a \<le> theoretical_tps rb"
    using le by blast
qed

theorem average_effective_tps_below_theoretical_witness:
  "(\<exists>r g' fs'.
      run_simulation_A settings_A 3 ''mixed'' False rng_zero no_files = Inr (r, g', fs') \<and>
      tps_theoretical r = 21824 / 3 \<and>
      (\<exists>a. avg_tps_effective r = Some a \<and> a \<le> 21824 / 3)) \<and>
   (\<exists>rb gb'.
      run_simulation_B settings_B 3 ''mixed'' rng_zero = Inr (rb, gb') \<and>
      theoretical_tps rb = 21824 / 3 \<and>
      (\<exists>a. avg_effective_tps rb = Some a \<and> a \<le> 21824 / 3))"
proof -
  have k: "known_scenario ''mixed''" by (simp add: known_scenario_def)
  have n: "False \<or> (0::int) < 3" and n0: "(3::int) \<noteq> 0" by simp_all
  have "\<exists>r g' fs'.
      run_simulation_A settings_A 3 ''mixed'' False rng_zero no_files = Inr (r, g', fs')"
    by (rule run_simulation_A_known [OF k n])
  then obtain r g' fs' where
    a: "run_simulation_A settings_A 3 ''mixed'' False rng_zero no_files = Inr (r, g', fs')"
    by blast
  have c: "0 \<le> work_package_size settings_B div CHUNK_SIZE settings_B"
    by (simp add: settings_B_def)
  have "\<exists>rb gb'. run_simulation_B settings_B 3 ''mixed'' rng_zero = Inr (rb, gb')"
    by (rule run_simulation_B_returns [OF c n0])
  then obtain rb gb' where
    b: "run_simulation_B settings_B 3 ''mixed'' rng_zero = Inr (rb, gb')"
    by blast
  note t = average_effective_tps_below_theoretical
    [of 3 "''mixed''" False rng_zero no_files r g' fs' rng_zero rb gb']
  from t a have ta: "tps_theoretical r = 21824 / 3"
    and xa: "\<exists>x. avg_tps_effective r = Some x \<and> x \<le> tps_theoretical r" by blast+
  have "(0::int) < 3" by simp
  with t b have tb: "theoretical_tps rb = 21824 / 3"
    and xb: "\<exists>x. avg_effective_tps rb = Some x \<and> x \<le> theoretical_tps rb" by blast+
  from xa xb show ?thesis unfolding ta tb using a b ta tb by blast
qed

section \<open>What a finished run recorded for each slot\<close>















section \<open>Slots with every unit on core 0\<close>

lemma all_on_core_0_nth:
  "i < c \<Longrightarrow> all_on_core_0 c k ! i = (if i = 0 then k else 0)"
  by (cases i) (simp_all add: all_on_core_0_def)

lemma distribute_zero_draws_loaded:
  "0 < c \<Longrightarrow> distribute n c (\<lambda>_. 0) = (all_on_core_0 c (int n), (\<lambda>_. 0))"
  by (simp add: distribute_zero_draws all_on_core_0_def)

lemma sum_list_loaded:
  assumes "0 < c" and "\<And>i. 0 < i \<Longrightarrow> i < c \<Longrightarrow> h i = (y::int)"
  shows "(\<Sum>i\<leftarrow>[0..<c]. h i) = h 0 + int (c - 1) * y"
proof -
  have u: "[0..<c] = 0 # [Suc 0..<c]" using assms(1) by (rule upt_conv_Cons)
  have "map h [Suc 0..<c] = map (\<lambda>_. y) [Suc 0..<c]"
    by (rule map_cong) (auto simp: assms(2))
  then have "sum_list (map h [Suc 0..<c]) = int (c - 1) * y"
    by (simp add: sum_list_replicate map_replicate_const)
  then show ?thesis unfolding u by simp
qed

lemma count_loaded:
  assumes "0 < c" and "\<And>i. 0 < i \<Longrightarrow> i < c \<Longrightarrow> Q i = q"
  shows "int (length (filter Q [0..<c])) =
           (if Q 0 then 1 else 0) + (if q then int (c - 1) else 0)"
proof -
  have u: "[0..<c] = 0 # [Suc 0..<c]" using assms(1) by (rule upt_conv_Cons)
  have "filter Q [Suc 0..<c] = filter (\<lambda>_. q) [Suc 0..<c]"
    by (rule filter_cong) (auto simp: assms(2))
  then have "int (length (filter Q [Suc 0..<c])) = (if q then int (c - 1) else 0)"
    by simp
  then show ?thesis unfolding u by simp
qed

lemma exists_loaded:
  assumes "0 < (c::nat)" and "\<And>i. 0 < i \<Longrightarrow> i < c \<Longrightarrow> Q i = q"
  shows "(\<exists>i<c. Q i) = (Q 0 \<or> (1 < c \<and> q))"
proof
  assume "\<exists>i<c. Q i"
  then obtain i where i: "i < c" "Q i" by blast
  show "Q 0 \<or> (1 < c \<and> q)"
  proof (cases "i = 0")
    case True
    then show ?thesis using i by simp
  next
    case False
    then have "0 < i" by simp
    then have "q" "1 < c" using assms(2) [of i] i by auto
    then show ?thesis by simp
  qed
next
  assume "Q 0 \<or> (1 < c \<and> q)"
  then show "\<exists>i<c. Q i"
  proof
    assume "Q 0" then show ?thesis using assms(1) by blast
  next
    assume "1 < c \<and> q"
    then have "Q 1" "1 < c" using assms(2) [of 1] by auto
    then show ?thesis by blast
  qed
qed

lemma cores_loop_A_loaded:
  assumes "0 < C cfg" and "0 < P cfg"
  shows "cores_loop_A cfg (all_on_core_0 (C cfg) a) (all_on_core_0 (C cfg) b) =
     ((if core_bandwidth cfg * P cfg < a * work_package_size cfg + b * witness_size cfg
       then 1 else 0) +
      (if core_bandwidth cfg * P cfg < 0 then int (C cfg - 1) else 0),
      min (core_bandwidth cfg * P cfg) (a * work_package_size cfg + b * witness_size cfg) +
      int (C cfg - 1) * min (core_bandwidth cfg * P cfg) 0)"
proof -
  let ?xs = "all_on_core_0 (C cfg) a" and ?ys = "all_on_core_0 (C cfg) b"
  let ?d = "\<lambda>i. ?xs ! i * work_package_size cfg + ?ys ! i * witness_size cfg"
  have d0: "?d 0 = a * work_package_size cfg + b * witness_size cfg"
    using assms(1) by (simp add: all_on_core_0_nth)
  have di: "?d i = 0" if "0 < i" "i < C cfg" for i
    using that by (simp add: all_on_core_0_nth)
  have "fst (cores_loop_A cfg ?xs ?ys) =
      int (length (filter (\<lambda>i. core_bandwidth cfg * P cfg < ?d i) [0..<C cfg]))"
    by (rule cores_loop_A_count [OF assms(2)])
  also have "\<dots> = (if core_bandwidth cfg * P cfg < ?d 0 then 1 else 0) +
      (if core_bandwidth cfg * P cfg < 0 then int (C cfg - 1) else 0)"
    by (rule count_loaded [OF assms(1)]) (simp add: di)
  finally have f: "fst (cores_loop_A cfg ?xs ?ys) =
      (if core_bandwidth cfg * P cfg < a * work_package_size cfg + b * witness_size cfg
       then 1 else 0) +
      (if core_bandwidth cfg * P cfg < 0 then int (C cfg - 1) else 0)"
    unfolding d0 .
  have "snd (cores_loop_A cfg ?xs ?ys) =
      (\<Sum>i\<leftarrow>[0..<C cfg]. min (core_bandwidth cfg * P cfg) (?d i))"
    by (simp add: cores_loop_A_eq)
  also have "\<dots> = min (core_bandwidth cfg * P cfg) (?d 0) +
      int (C cfg - 1) * min (core_bandwidth cfg * P cfg) 0"
    by (rule sum_list_loaded [OF assms(1)]) (simp add: di)
  finally have s: "snd (cores_loop_A cfg ?xs ?ys) =
      min (core_bandwidth cfg * P cfg) (a * work_package_size cfg + b * witness_size cfg) +
      int (C cfg - 1) * min (core_bandwidth cfg * P cfg) 0"
    unfolding d0 .
  show ?thesis using f s by (simp add: prod_eq_iff)
qed

lemma cores_loop_B_loaded:
  assumes "0 < C cfg"
  shows "cores_loop_B cfg nw (all_on_core_0 (C cfg) a) =
     ((core_bandwidth cfg * P cfg <
         a * CHUNK_SIZE cfg + (nw div int (C cfg)) * witness_size cfg) \<or>
      (1 < C cfg \<and> core_bandwidth cfg * P cfg < (nw div int (C cfg)) * witness_size cfg),
      min (a * CHUNK_SIZE cfg + (nw div int (C cfg)) * witness_size cfg)
          (core_bandwidth cfg * P cfg) +
      int (C cfg - 1) *
        min ((nw div int (C cfg)) * witness_size cfg) (core_bandwidth cfg * P cfg))"
proof -
  let ?xs = "all_on_core_0 (C cfg) a"
  let ?w = "(nw div int (C cfg)) * witness_size cfg"
  let ?d = "\<lambda>i. ?xs ! i * CHUNK_SIZE cfg + ?w"
  have d0: "?d 0 = a * CHUNK_SIZE cfg + ?w"
    using assms by (simp add: all_on_core_0_nth)
  have di: "?d i = ?w" if "0 < i" "i < C cfg" for i
    using that by (simp add: all_on_core_0_nth)
  have "fst (cores_loop_B cfg nw ?xs) = (\<exists>i<C cfg. core_bandwidth cfg * P cfg < ?d i)"
    by (simp add: cores_loop_B_eq)
  also have "\<dots> = (core_bandwidth cfg * P cfg < ?d 0 \<or>
      (1 < C cfg \<and> core_bandwidth cfg * P cfg < ?w))"
    by (rule exists_loaded [OF assms]) (simp add: di)
  finally have f: "fst (cores_loop_B cfg nw ?xs) =
      (core_bandwidth cfg * P cfg < a * CHUNK_SIZE cfg + ?w \<or>
      (1 < C cfg \<and> core_bandwidth cfg * P cfg < ?w))"
    unfolding d0 .
  have "snd (cores_loop_B cfg nw ?xs) =
      (\<Sum>i\<leftarrow>[0..<C cfg]. min (?d i) (core_bandwidth cfg * P cfg))"
    by (simp add: cores_loop_B_eq)
  also have "\<dots> = min (?d 0) (core_bandwidth cfg * P cfg) +
      int (C cfg - 1) * min ?w (core_bandwidth cfg * P cfg)"
    by (rule sum_list_loaded [OF assms]) (simp add: di)
  finally have s: "snd (cores_loop_B cfg nw ?xs) =
      min (a * CHUNK_SIZE cfg + ?w) (core_bandwidth cfg * P cfg) +
      int (C cfg - 1) * min ?w (core_bandwidth cfg * P cfg)"
    unfolding d0 .
  show ?thesis using f s by (simp add: prod_eq_iff)
qed

lemma shipped_fields [simp]:
  "C settings_A = 341" "P settings_A = 6" "T settings_A = 128"
  "core_bandwidth settings_A = 2097152" "work_package_size settings_A = 13794305"
  "witness_size settings_A = 640" "finality_delay_slots settings_A = 2"
  "GAMMA_A settings_A = 1 / 1000" "GAMMA_Z settings_A = 1 / 2000"
  "C settings_B = 341" "P settings_B = 6" "T settings_B = 128"
  "core_bandwidth settings_B = 9609384" "work_package_size settings_B = 13794305"
  "witness_size settings_B = 640" "finality_delay_slots settings_B = 2"
  "GAMMA_A settings_B = 1 / 1000" "GAMMA_Z settings_B = 1 / 2000"
  "CHUNK_SIZE settings_B = 1048576"
  "C settings_B_16 = 16" "P settings_B_16 = 6" "T settings_B_16 = 128"
  "core_bandwidth settings_B_16 = 204800000" "work_package_size settings_B_16 = 13794305"
  "witness_size settings_B_16 = 640" "finality_delay_slots settings_B_16 = 2"
  "GAMMA_A settings_B_16 = 1 / 1000" "GAMMA_Z settings_B_16 = 1 / 2000"
  "CHUNK_SIZE settings_B_16 = 1048576"
  by (simp_all add: settings_A_def settings_B_def settings_B_16_def)

lemma in_range_shipped:
  "in_range_A settings_A" "in_range_B settings_B" "in_range_B settings_B_16"
  by (simp_all add: in_range_A_def in_range_B_def)

lemma loop_A_shipped:
  "cores_loop_A settings_A (all_on_core_0 341 a) (all_on_core_0 341 b) =
     ((if 12582912 < a * 13794305 + b * 640 then 1 else 0),
      min 12582912 (a * 13794305 + b * 640))"
  using cores_loop_A_loaded [of settings_A a b] by simp

lemma loop_B_shipped:
  "cores_loop_B settings_B nw (all_on_core_0 341 a) =
     (57656304 < a * 1048576 + (nw div 341) * 640 \<or> 57656304 < (nw div 341) * 640,
      min (a * 1048576 + (nw div 341) * 640) 57656304 +
      340 * min ((nw div 341) * 640) 57656304)"
  using cores_loop_B_loaded [of settings_B nw a] by simp

lemma loop_B_16:
  "cores_loop_B settings_B_16 nw (all_on_core_0 16 a) =
     (1228800000 < a * 1048576 + (nw div 16) * 640 \<or> 1228800000 < (nw div 16) * 640,
      min (a * 1048576 + (nw div 16) * 640) 1228800000 +
      15 * min ((nw div 16) * 640) 1228800000)"
  using cores_loop_B_loaded [of settings_B_16 nw a] by simp

lemmas slot_defs = slot_body_A_def epoch_reseed_def generate_workload_A_def randint_def
  multinomial_def rng_zero_def rng_heavy_def rest_def Let_def distribute_zero_draws_loaded
  slot_body_B_def workloads_for_slot_def

lemma shipped_slot_A:
  "slot_body_A settings_A ''stateless'' False slot rng_zero =
     Inr (\<lparr>workloads = 1, witnesses = 100, workloads_per_core = all_on_core_0 341 1,
           witnesses_per_core = all_on_core_0 341 100, slot_contention_count = 1,
           total_processed_data_in_slot = 12582912,
           effective_tps_A = 268435456 / 13794305, cost = 13 / 200\<rparr>, rng_zero)"
  by (simp add: slot_defs loop_A_shipped del: distribute.simps)

lemma shipped_slot_B:
  "slot_body_B settings_B ''stateless'' rng_zero =
     Inr (\<lparr>num_workloads = 5, total_chunks = 65, chunks_per_core = all_on_core_0 341 65,
           slot_contended = True, processed_bytes = 57656304,
           effective_tps_B = 1230001152 / 13794305, slot_cost = 13 / 40\<rparr>, rng_zero)"
  by (simp add: slot_defs loop_B_shipped del: distribute.simps)

lemma heavy_slot_B_16:
  "slot_body_B settings_B_16 ''state-heavy'' rng_heavy =
     Inr (\<lparr>num_workloads = 30, total_chunks = 390, chunks_per_core = all_on_core_0 16 390,
           slot_contended = False, processed_bytes = 408954880,
           effective_tps_B = 5234622464 / 8276583, slot_cost = 39 / 20\<rparr>, rng_heavy)"
  by (simp add: slot_defs loop_B_16 del: distribute.simps)

lemma upt_1: "[0..<nat 1] = [0]"
  by simp

lemma one_slot_A:
  "run_simulation_A settings_A 1 ''stateless'' False rng_zero no_files =
     Inr (\<lparr>scenario_A = ''stateless'', tps_theoretical = 21824 / 3,
        avg_tps_effective = Some (268435456 / 13794305),
        avg_tps_finalized = Some 0,
        avg_cost = Some (13 / 200), contention_rate = 100,
        res_tps_effective = [268435456 / 13794305],
        res_tps_finalized = [0],
        res_contention_history = [True]\<rparr>,
       rng_zero,
       no_files(''simulation_results.csv'' \<mapsto>
        [[CStr ''Slot'', CStr ''Effective TPS'', CStr ''Finalized TPS'', CStr ''Contention''],
         [CInt 0, CNum (268435456 / 13794305), CNum 0, CBool True]]))"
proof -
  have s: "slots_A settings_A ''stateless'' False [0]
     (\<lparr>contention_history = [], costs = [], tps_effective = [], tps_finalized = []\<rparr>, rng_zero) =
   Inr (\<lparr>contention_history = [True], costs = [13 / 200],
         tps_effective = [268435456 / 13794305], tps_finalized = [0]\<rparr>, rng_zero)"
    by (simp add: slot_A_def shipped_slot_A Let_def)
  show ?thesis
    unfolding run_simulation_A_def linspace_def Let_def if_False upt_1 s
    by (simp add: np_mean_def csv_rows_A_def)
qed

lemma one_slot_B:
  "run_simulation_B settings_B 1 ''stateless'' rng_zero =
     Inr (\<lparr>scenario_B = ''stateless'', theoretical_tps = 21824 / 3,
        avg_effective_tps = Some (1230001152 / 13794305),
        avg_finalized_tps = Some 0,
        contention_rate_pct = 100, avg_cost_per_slot_usd = Some (13 / 40),
        effective_series = [1230001152 / 13794305],
        finalized_series = [0],
        contention_series = [True],
        res_cost_series = [13 / 40]\<rparr>, rng_zero)"
proof -
  have s: "slots_B settings_B ''stateless'' [0]
     (\<lparr>contention_flags = [], effective_tps_series = [],
        finalized_tps_series = [], cost_series = []\<rparr>, rng_zero) =
   Inr (\<lparr>contention_flags = [True],
         effective_tps_series = [1230001152 / 13794305],
         finalized_tps_series = [0],
         cost_series = [13 / 40]\<rparr>, rng_zero)"
    by (simp add: slot_B_def shipped_slot_B Let_def)
  show ?thesis
    unfolding run_simulation_B_def Let_def upt_1 s
    by (simp add: np_mean_def)
qed

lemma one_heavy_slot_B_16:
  "run_simulation_B settings_B_16 1 ''state-heavy'' rng_heavy =
     Inr (\<lparr>scenario_B = ''state-heavy'', theoretical_tps = 1024 / 3,
        avg_effective_tps = Some (5234622464 / 8276583),
        avg_finalized_tps = Some 0,
        contention_rate_pct = 0, avg_cost_per_slot_usd = Some (39 / 20),
        effective_series = [5234622464 / 8276583],
        finalized_series = [0],
        contention_series = [False],
        res_cost_series = [39 / 20]\<rparr>, rng_heavy)"
proof -
  have s: "slots_B settings_B_16 ''state-heavy'' [0]
     (\<lparr>contention_flags = [], effective_tps_series = [],
        finalized_tps_series = [], cost_series = []\<rparr>, rng_heavy) =
   Inr (\<lparr>contention_flags = [False],
         effective_tps_series = [5234622464 / 8276583],
         finalized_tps_series = [0],
         cost_series = [39 / 20]\<rparr>, rng_heavy)"
    by (simp add: slot_B_def heavy_slot_B_16 Let_def)
  show ?thesis
    unfolding run_simulation_B_def Let_def upt_1 s
    by (simp add: np_mean_def)
qed

lemma no_slot_B:
  "run_simulation_B settings_B (- 1) ''mixed'' rng_zero =
     Inr (\<lparr>scenario_B = ''mixed'', theoretical_tps = 21824 / 3,
        avg_effective_tps = None, avg_finalized_tps = None,
        contention_rate_pct = 0, avg_cost_per_slot_usd = None,
        effective_series = [], finalized_series = [],
        contention_series = [], res_cost_series = []\<rparr>, rng_zero)"
  by (simp add: run_simulation_B_def Let_def np_mean_def)

section \<open>Runs with the constants of the files\<close>










text \<open>
  With \<open>C = 16\<close> one slot of 30 workloads has an effective TPS of about 632, above the
  theoretical \<open>16 * 128 / 6\<close>; and with the constants of the file a run of variant B for
  \<open>-1\<close> slots returns without an average.
\<close>

theorem average_above_theoretical_counterexample:
  "run_simulation_B settings_B_16 1 ''state-heavy'' rng_heavy =
     Inr (\<lparr>scenario_B = ''state-heavy'', theoretical_tps = 1024 / 3,
        avg_effective_tps = Some (5234622464 / 8276583),
        avg_finalized_tps = Some 0,
        contention_rate_pct = 0, avg_cost_per_slot_usd = Some (39 / 20),
        effective_series = [5234622464 / 8276583],
        finalized_series = [0],
        contention_series = [False],
        res_cost_series = [39 / 20]\<rparr>, rng_heavy) \<and>
   in_range_B settings_B_16 \<and>
   (1024 / 3 :: rat) < 5234622464 / 8276583 \<and>
   run_simulation_B settings_B (- 1) ''mixed'' rng_zero =
     Inr (\<lparr>scenario_B = ''mixed'', theoretical_tps = 21824 / 3,
        avg_effective_tps = None, avg_finalized_tps = None,
        contention_rate_pct = 0, avg_cost_per_slot_usd = None,
        effective_series = [], finalized_series = [],
        contention_series = [], res_cost_series = []\<rparr>, rng_zero)"
  using one_heavy_slot_B_16 no_slot_B in_range_shipped(3) by simp

section \<open>Epoch mode and the file written by variant A\<close>

lemma csv_rows_of_result:
  assumes "length (tps_effective s) = nat n"
  shows "csv_rows_A n s =
     csv_of_result \<lparr> scenario_A = sc, tps_theoretical = th, avg_tps_effective = ae,
        avg_tps_finalized = af, avg_cost = ac, contention_rate = cr,
        res_tps_effective = tps_effective s, res_tps_finalized = tps_finalized s,
        res_contention_history = contention_history s \<rparr>"
  using assms by (simp add: csv_rows_A_def csv_of_result_def)

lemma run_simulation_A_files:
  assumes "run_simulation_A cfg num_slots scenario epoch_mode g fs = Inr (r, g', fs')"
  shows "fs' = fs(''simulation_results.csv'' \<mapsto> csv_of_result r)"
proof -
  from run_simulation_A_facts [OF assms] obtain n s where
    sl: "slots_A cfg scenario epoch_mode [0..<nat n]
       (\<lparr> contention_history = [], costs = [], tps_effective = [], tps_finalized = [] \<rparr>, g)
       = Inr (s, g')" and
    r: "r = \<lparr> scenario_A = scenario,
           tps_theoretical = of_int (int (C cfg) * T cfg) / of_int (P cfg),
           avg_tps_effective = np_mean (tps_effective s),
           avg_tps_finalized = np_mean (tps_finalized s),
           avg_cost = np_mean (costs s),
           contention_rate = of_nat (length (filter id (contention_history s)))
                              / of_int n * 100,
           res_tps_effective = tps_effective s,
           res_tps_finalized = tps_finalized s,
           res_contention_history = contention_history s \<rparr>" and
    f: "fs' = fs(''simulation_results.csv'' \<mapsto> csv_rows_A n s)"
    by blast
  have "length (tps_effective s) = nat n" using slots_A_series [OF sl] by simp
  then have "csv_rows_A n s = csv_of_result r"
    unfolding r by (rule csv_rows_of_result)
  then show ?thesis unfolding f by simp
qed

lemma run_simulation_A_any_files:
  "map_sum id (\<lambda>(r, g', fs'). (r, g')) (run_simulation_A cfg num_slots scenario epoch_mode g fs) =
   map_sum id (\<lambda>(r, g', fs'). (r, g')) (run_simulation_A cfg num_slots scenario epoch_mode g fs2)"
  unfolding run_simulation_A_def Let_def
  by (auto split: sum.splits prod.splits)

text \<open>
  Claim C10.  With \<open>epoch_mode\<close> set, variant A runs 600 slots whatever slot count was
  passed: the run is the run for 600, and where it returns, its series have 600 entries
  and the file 600 rows under the header.
\<close>

theorem epoch_mode_runs_600_slots:
  "run_simulation_A cfg num_slots scenario True g fs =
     run_simulation_A cfg 600 scenario True g fs \<and>
   (known_scenario scenario \<longrightarrow>
      (\<exists>r g' fs'. run_simulation_A cfg num_slots scenario True g fs = Inr (r, g', fs'))) \<and>
   (run_simulation_A cfg num_slots scenario True g fs = Inr (r, g', fs') \<longrightarrow>
      length (res_tps_effective r) = 600 \<and> length (res_tps_finalized r) = 600 \<and>
      length (res_contention_history r) = 600 \<and>
      fs' ''simulation_results.csv'' = Some (csv_of_result r) \<and>
      length (csv_of_result r) = 601)"
proof (intro conjI impI)
  show "run_simulation_A cfg num_slots scenario True g fs =
     run_simulation_A cfg 600 scenario True g fs"
    by (simp add: run_simulation_A_def)
next
  assume "known_scenario scenario"
  then show "\<exists>r g' fs'. run_simulation_A cfg num_slots scenario True g fs = Inr (r, g', fs')"
    by (rule run_simulation_A_known) simp
next
  assume run: "run_simulation_A cfg num_slots scenario True g fs = Inr (r, g', fs')"
  from run_simulation_A_facts [OF run] obtain n s where
    n: "n = (600::int)" and
    sl: "slots_A cfg scenario True [0..<nat n]
       (\<lparr> contention_history = [], costs = [], tps_effective = [], tps_finalized = [] \<rparr>, g)
       = Inr (s, g')" and
    e: "res_tps_effective r = tps_effective s" and f: "res_tps_finalized r = tps_finalized s"
    and c: "res_contention_history r = contention_history s"
    by auto
  from slots_A_series [OF sl] have
    len: "length (tps_effective s) = 600" "length (contention_history s) = 600" and
    sh: "shifted (finality_delay_slots cfg) (tps_effective s) (tps_finalized s)"
    using n by simp_all
  show le: "length (res_tps_effective r) = 600" using len e by simp
  show "length (res_tps_finalized r) = 600" using sh len e f by (simp add: shifted_def)
  show "length (res_contention_history r) = 600" using len c by simp
  show "fs' ''simulation_results.csv'' = Some (csv_of_result r)"
    using run_simulation_A_files [OF run] by simp
  show "length (csv_of_result r) = 601" using le by (simp add: csv_of_result_def)
qed

theorem epoch_mode_runs_600_slots_witness:
  "known_scenario ''stateless'' \<and>
   (\<exists>r g' fs'. run_simulation_A settings_A 5 ''stateless'' True rng_zero no_files = Inr (r, g', fs') \<and>
      length (res_tps_effective r) = 600 \<and> length (res_contention_history r) = 600 \<and>
      length (csv_of_result r) = 601)"
proof -
  have k: "known_scenario ''stateless''" by (simp add: known_scenario_def)
  note t = epoch_mode_runs_600_slots [of settings_A 5 "''stateless''" rng_zero no_files]
  from t k obtain r g' fs' where
    a: "run_simulation_A settings_A 5 ''stateless'' True rng_zero no_files = Inr (r, g', fs')"
    by blast
  from epoch_mode_runs_600_slots [of settings_A 5 "''stateless''" rng_zero no_files r g' fs'] a
  have "length (res_tps_effective r) = 600" "length (res_contention_history r) = 600"
      "length (csv_of_result r) = 601" by blast+
  with a k show ?thesis by blast
qed

text \<open>
  Claim C8, amended.  A run of variant A reads no file: two runs that differ only in the
  files present and that both return, return the same result and leave the generator in
  the same state.  A run of variant A that returns has written the file
  \<^verbatim>\<open>simulation_results.csv\<close> (the header and one row per slot, replacing what the file
  held) and has changed no other file.  The run function of variant B has no file
  statement: the files are after it what they were before.
\<close>

theorem run_A_writes_only_the_csv_run_B_no_file:
  "(run_simulation_A cfg num_slots scenario epoch_mode g fs = Inr (r, g', fs') \<longrightarrow>
      fs' = fs(''simulation_results.csv'' \<mapsto> csv_of_result r) \<and>
      (\<forall>name. name \<noteq> ''simulation_results.csv'' \<longrightarrow> fs' name = fs name) \<and>
      (\<forall>fs2 r2 g2 fs2'.
         run_simulation_A cfg num_slots scenario epoch_mode g fs2 = Inr (r2, g2, fs2') \<longrightarrow>
           r2 = r \<and> g2 = g')) \<and>
   (without_files (run_simulation_B cfgb num_slots scenario gb) fs = Inr (x, fs'') \<longrightarrow>
      fs'' = fs \<and> run_simulation_B cfgb num_slots scenario gb = Inr x)"
proof (intro conjI impI allI)
  assume a: "run_simulation_A cfg num_slots scenario epoch_mode g fs = Inr (r, g', fs')"
  show f: "fs' = fs(''simulation_results.csv'' \<mapsto> csv_of_result r)"
    by (rule run_simulation_A_files [OF a])
  {
    fix name :: string
    assume "name \<noteq> ''simulation_results.csv''"
    then show "fs' name = fs name" unfolding f by simp
  }
  {
    fix fs2 r2 g2 fs2'
    assume b: "run_simulation_A cfg num_slots scenario epoch_mode g fs2 = Inr (r2, g2, fs2')"
    from run_simulation_A_any_files [of cfg num_slots scenario epoch_mode g fs fs2]
    have e: "(r, g') = (r2, g2)" unfolding a b by simp
    from e show "r2 = r" by simp
    from e show "g2 = g'" by simp
  }
next
  assume "without_files (run_simulation_B cfgb num_slots scenario gb) fs = Inr (x, fs'')"
  then have "fs'' = fs \<and> run_simulation_B cfgb num_slots scenario gb = Inr x"
    by (auto simp add: without_files_def split: sum.splits)
  then show "fs'' = fs" "run_simulation_B cfgb num_slots scenario gb = Inr x" by blast+
qed

text \<open>
  One slot of either file, started without files and, for variant A, also beside a file
  of another name.
\<close>

theorem run_A_writes_only_the_csv_run_B_no_file_witness:
  "\<exists>r g' fs'.
      run_simulation_A settings_A 1 ''stateless'' False rng_zero no_files = Inr (r, g', fs') \<and>
      fs' = no_files(''simulation_results.csv'' \<mapsto> csv_of_result r) \<and>
      fs' ''simulation_results.csv'' \<noteq> no_files ''simulation_results.csv'' \<and>
      fs' ''notes.txt'' = no_files ''notes.txt'' \<and>
      (\<exists>r2 g2 fs2'.
         run_simulation_A settings_A 1 ''stateless'' False rng_zero
           (no_files(''notes.txt'' \<mapsto> [[CInt 7]])) = Inr (r2, g2, fs2') \<and>
         r2 = r \<and> g2 = g') \<and>
      (\<exists>x fs''.
         without_files (run_simulation_B settings_B 1 ''stateless'' rng_zero) no_files =
           Inr (x, fs'') \<and>
         fs'' = no_files \<and> run_simulation_B settings_B 1 ''stateless'' rng_zero = Inr x)"
proof -
  obtain r g' fs' where
    a: "run_simulation_A settings_A 1 ''stateless'' False rng_zero no_files = Inr (r, g', fs')"
    using one_slot_A by simp
  have k: "known_scenario ''stateless''" by (simp add: known_scenario_def)
  have n: "False \<or> (0::int) < 1" by simp
  have "\<exists>r2 g2 fs2'. run_simulation_A settings_A 1 ''stateless'' False rng_zero
      (no_files(''notes.txt'' \<mapsto> [[CInt 7]])) = Inr (r2, g2, fs2')"
    by (rule run_simulation_A_known [OF k n])
  then obtain r2 g2 fs2' where
    a2: "run_simulation_A settings_A 1 ''stateless'' False rng_zero
      (no_files(''notes.txt'' \<mapsto> [[CInt 7]])) = Inr (r2, g2, fs2')"
    by blast
  obtain x where b: "run_simulation_B settings_B 1 ''stateless'' rng_zero = Inr x"
    using one_slot_B by simp
  have w: "without_files (run_simulation_B settings_B 1 ''stateless'' rng_zero) no_files =
      Inr (x, no_files)"
    unfolding b by (simp add: without_files_def)
  note t = run_A_writes_only_the_csv_run_B_no_file
    [of settings_A 1 "''stateless''" False rng_zero no_files r g' fs'
        settings_B rng_zero x no_files]
  note ta = t [THEN conjunct1, THEN mp, OF a]
  note f = ta [THEN conjunct1]
  have d: "''notes.txt'' \<noteq> ''simulation_results.csv''" by simp
  note o = ta [THEN conjunct2, THEN conjunct1, THEN spec, THEN mp, OF d]
  note e = ta [THEN conjunct2, THEN conjunct2, THEN spec, THEN spec, THEN spec, THEN spec,
    THEN mp, OF a2]
  note b' = t [THEN conjunct2, THEN mp, OF w]
  have c: "fs' ''simulation_results.csv'' \<noteq> no_files ''simulation_results.csv''"
    unfolding f by (simp add: no_files_def)
  have A2: "\<exists>r2 g2 fs2'.
         run_simulation_A settings_A 1 ''stateless'' False rng_zero
           (no_files(''notes.txt'' \<mapsto> [[CInt 7]])) = Inr (r2, g2, fs2') \<and>
         r2 = r \<and> g2 = g'"
    using a2 e by (intro exI conjI) simp_all
  have B: "\<exists>x fs''.
         without_files (run_simulation_B settings_B 1 ''stateless'' rng_zero) no_files =
           Inr (x, fs'') \<and>
         fs'' = no_files \<and> run_simulation_B settings_B 1 ''stateless'' rng_zero = Inr x"
    using w b' by (intro exI conjI) simp_all
  show ?thesis
    by (rule a f c o A2 B conjI exI)+
qed

text \<open>Three slots on one core, started without files: afterwards there is one.\<close>

theorem run_A_writes_a_file_counterexample:
  "run_simulation_A single_core_A 3 ''stateless'' False rng_zero no_files =
     Inr (\<lparr>scenario_A = ''stateless'', tps_theoretical = 64 / 3,
        avg_tps_effective = Some (268435456 / 13794305),
        avg_tps_finalized = Some (268435456 / 41382915),
        avg_cost = Some (13 / 200), contention_rate = 100,
        res_tps_effective =
          [268435456 / 13794305, 268435456 / 13794305, 268435456 / 13794305],
        res_tps_finalized = [0, 0, 268435456 / 13794305],
        res_contention_history = [True, True, True]\<rparr>,
       rng_zero,
       no_files(''simulation_results.csv'' \<mapsto>
        [[CStr ''Slot'', CStr ''Effective TPS'', CStr ''Finalized TPS'', CStr ''Contention''],
         [CInt 0, CNum (268435456 / 13794305), CNum 0, CBool True],
         [CInt 1, CNum (268435456 / 13794305), CNum 0, CBool True],
         [CInt 2, CNum (268435456 / 13794305), CNum (268435456 / 13794305), CBool True]])) \<and>
   no_files ''simulation_results.csv'' = None \<and>
   no_files(''simulation_results.csv'' \<mapsto>
        [[CStr ''Slot'', CStr ''Effective TPS'', CStr ''Finalized TPS'', CStr ''Contention''],
         [CInt 0, CNum (268435456 / 13794305), CNum 0, CBool True],
         [CInt 1, CNum (268435456 / 13794305), CNum 0, CBool True],
         [CInt 2, CNum (268435456 / 13794305), CNum (268435456 / 13794305), CBool True]])
     \<noteq> no_files"
  using three_slots_A by (simp add: no_files_def)

section \<open>Scenario tags outside the three\<close>

lemma workloads_for_slot_unknown:
  "\<not> known_scenario scenario \<Longrightarrow>
     workloads_for_slot scenario g = workloads_for_slot ''mixed'' g"
  by (simp add: workloads_for_slot_def known_scenario_def)

text \<open>
  Claim C1, at the input \<^verbatim>\<open>"bogus"\<close>.  Variant A raises
  \<^verbatim>\<open>ValueError("Unknown scenario.")\<close> in its first slot.  Variant B has no such branch:
  the tag falls into the \<^verbatim>\<open>else\<close> of \<^verbatim>\<open>workloads_for_slot\<close>, is served as
  \<^verbatim>\<open>"mixed"\<close>, and the run returns a result with one entry per slot.
\<close>

theorem unknown_scenario_B_returns_a_result:
  "\<not> known_scenario ''bogus'' \<and>
   run_simulation_A settings_A 1 ''bogus'' False rng_zero no_files =
     Inl (ValueError ''Unknown scenario.'') \<and>
   workloads_for_slot ''bogus'' rng_zero = workloads_for_slot ''mixed'' rng_zero \<and>
   (\<exists>rb gb'. run_simulation_B settings_B 1 ''bogus'' rng_zero = Inr (rb, gb') \<and>
      scenario_B rb = ''bogus'' \<and> length (effective_series rb) = 1 \<and>
      length (contention_series rb) = 1)"
proof -
  have u: "\<not> known_scenario ''bogus''" by (simp add: known_scenario_def)
  have a: "run_simulation_A settings_A 1 ''bogus'' False rng_zero no_files =
     Inl (ValueError ''Unknown scenario.'')"
    by (rule run_simulation_A_unknown [OF u]) simp
  have c: "0 \<le> work_package_size settings_B div CHUNK_SIZE settings_B"
    by (simp add: settings_B_def)
  have "\<exists>rb gb'. run_simulation_B settings_B 1 ''bogus'' rng_zero = Inr (rb, gb')"
    by (rule run_simulation_B_returns [OF c]) simp
  then obtain rb gb' where
    b: "run_simulation_B settings_B 1 ''bogus'' rng_zero = Inr (rb, gb')" by blast
  from run_simulation_B_facts [OF b] obtain s where
    sl: "slots_B settings_B ''bogus'' [0..<nat 1]
       (\<lparr> contention_flags = [], effective_tps_series = [],
          finalized_tps_series = [], cost_series = [] \<rparr>, rng_zero) = Inr (s, gb')" and
    sc: "scenario_B rb = ''bogus''" and
    e: "effective_series rb = effective_tps_series s" and
    f: "contention_series rb = contention_flags s"
    by auto
  from slots_B_series [OF sl] have
    "length (effective_tps_series s) = 1" "length (contention_flags s) = 1" by simp_all
  then have "length (effective_series rb) = 1" "length (contention_series rb) = 1"
    using e f by simp_all
  with u a b sc workloads_for_slot_unknown [OF u, of rng_zero] show ?thesis by blast
qed

end
